theory Spec2Isabelle
  imports Complex_Main "HOL-Library.Product_Lexorder" "HOL-Library.Multiset"
begin

section \<open>Python values and failures\<close>

text \<open>
  EPOS is Python 2 on top of numpy. Floats are modelled by the reals: every statement below
  is about exact arithmetic, and array arguments are float arrays (an integer array would
  make Python 2 divide by truncation). A raise is a value \<open>Inl e\<close> of the result type.
  The exceptions carry the dictionary key, attribute or a short form of the message.
  \<open>FloatingPointError\<close> is what numpy raises for an invalid operation under
  \<open>np.seterr(all='raise')\<close>. With the default setting, which EPOS uses, Python goes on
  with \<open>nan\<close>; the model ends with this error only in the three places where the code
  would hand an array with \<open>nan\<close> to a function the caller supplied or to \<open>EPOS.multi\<close>.
\<close>

datatype py_error =
    KeyError string
  | IndexError
  | ValueError string
  | AssertionError string
  | AttributeError string
  | NameError string
  | ZeroDivisionError
  | FloatingPointError string

text \<open>\<open>[f(x) for x in xs]\<close> where \<open>f\<close> may raise: the first failure ends the loop.\<close>

fun map_raise :: "('a \<Rightarrow> py_error + 'b) \<Rightarrow> 'a list \<Rightarrow> py_error + 'b list" where
  "map_raise f [] = Inr []"
| "map_raise f (x # xs) =
     (case f x of
        Inl e \<Rightarrow> Inl e
      | Inr y \<Rightarrow> (case map_raise f xs of Inl e \<Rightarrow> Inl e | Inr ys \<Rightarrow> Inr (y # ys)))"

text \<open>\<open>list.index\<close>: the first position of a value, \<open>None\<close> where Python raises ValueError.\<close>

fun list_index :: "'a list \<Rightarrow> 'a \<Rightarrow> nat option" where
  "list_index [] k = None"
| "list_index (x # xs) k =
     (if x = k then Some 0 else map_option Suc (list_index xs k))"

section \<open>numpy on lists\<close>

text \<open>
  A one-dimensional array is a list, a two-dimensional array a list of rows of one length.
  Division by zero, the logarithm of a number that is not positive and a negative base
  under a fractional power do not raise in numpy: they give \<open>inf\<close> or \<open>nan\<close> with a
  warning. The reals have neither, so a float that may be one of them is a \<open>real option\<close>,
  and \<open>None\<close> stands for \<open>inf\<close>, \<open>-inf\<close> or \<open>nan\<close>; for an array, \<open>None\<close> stands
  for an array with such an entry.
\<close>

type_synonym matrix = "real list list"

definition np_div :: "real \<Rightarrow> real \<Rightarrow> real option" where
  "np_div a b = (if b = 0 then None else Some (a / b))"

definition np_log :: "real \<Rightarrow> real option" where
  "np_log x = (if 0 < x then Some (ln x) else None)"

definition np_log10 :: "real \<Rightarrow> real option" where
  "np_log10 x = (if 0 < x then Some (log 10 x) else None)"

text \<open>\<open>min(a)\<close> and \<open>max(a)\<close> of Python, for a list that is not empty.\<close>

definition py_min :: "real list \<Rightarrow> real" where
  "py_min xs = fold min (tl xs) (hd xs)"

definition py_max :: "real list \<Rightarrow> real" where
  "py_max xs = fold max (tl xs) (hd xs)"

text \<open>
  \<open>np.lexsort((xvar, starID))\<close>, for keys of one length: the indices in the order of the
  last key, ties in the order of the first key, and then in the order of the indices (the
  sort is stable). Pairs are compared lexicographically.
\<close>

definition lexsort :: "real list \<Rightarrow> int list \<Rightarrow> nat list" where
  "lexsort xvar starID = sort_key (\<lambda>i. (starID ! i, xvar ! i)) [0..<length starID]"

text \<open>\<open>a[order]\<close> for an index array within the range of \<open>a\<close>.\<close>

definition take_idx :: "'a list \<Rightarrow> nat list \<Rightarrow> 'a list" where
  "take_idx a order = map (\<lambda>i. a ! i) order"

text \<open>
  \<open>np.searchsorted(array, v, side='left')\<close> for one value \<open>v\<close>: numpy's binary search
  between \<open>lo\<close> and \<open>hi\<close>, which halves the range until it is empty. On an ascending
  array the result is the first position whose entry is not below \<open>v\<close>.
\<close>

function bisect_left :: "real list \<Rightarrow> real \<Rightarrow> nat \<Rightarrow> nat \<Rightarrow> nat" where
  "bisect_left a v lo hi =
     (if lo < hi
      then (if a ! (lo + (hi - lo) div 2) < v
            then bisect_left a v (lo + (hi - lo) div 2 + 1) hi
            else bisect_left a v lo (lo + (hi - lo) div 2))
      else lo)"
  by pat_completeness auto
termination
  by (relation "measure (\<lambda>(a, v, lo, hi). hi - lo)") auto

declare bisect_left.simps [simp del]

definition searchsorted_left :: "real list \<Rightarrow> real \<Rightarrow> nat" where
  "searchsorted_left array v = bisect_left array v 0 (length array)"

text \<open>\<open>a[i:j]\<close>: a negative index counts from the end, and the slice is clipped to the list.\<close>

definition py_slice :: "'a list \<Rightarrow> int \<Rightarrow> int \<Rightarrow> 'a list" where
  "py_slice a i j =
     (let n = int (length a);
          lo = (if i < 0 then max 0 (n + i) else min i n);
          hi = (if j < 0 then max 0 (n + j) else min j n)
      in take (nat hi - nat lo) (drop (nat lo) a))"

text \<open>\<open>np.meshgrid(xs, ys, indexing='ij')\<close>.\<close>

definition meshgrid_ij :: "real list \<Rightarrow> real list \<Rightarrow> matrix \<times> matrix" where
  "meshgrid_ij xs ys = (map (\<lambda>x. map (\<lambda>y. x) ys) xs, map (\<lambda>x. ys) xs)"

text \<open>\<open>np.sum(m)\<close>, \<open>np.sum(m, axis=1)\<close> and \<open>np.sum(m, axis=0)\<close> of a matrix with rows.\<close>

definition sum_all :: "matrix \<Rightarrow> real" where
  "sum_all m = sum_list (map sum_list m)"

definition sum_axis1 :: "matrix \<Rightarrow> real list" where
  "sum_axis1 m = map sum_list m"

definition sum_axis0 :: "matrix \<Rightarrow> real list" where
  "sum_axis0 m = map (\<lambda>j. sum_list (map (\<lambda>row. row ! j) m)) [0..<length (hd m)]"

text \<open>The array has shape \<open>(nx, ny)\<close>.\<close>

definition has_shape :: "matrix \<Rightarrow> nat \<Rightarrow> nat \<Rightarrow> bool" where
  "has_shape m nx ny = (length m = nx \<and> list_all (\<lambda>row. length row = ny) m)"

text \<open>
  \<open>np.logspace(a, b, num)\<close>: \<open>num\<close> points from \<open>10**a\<close> to \<open>10**b\<close>, evenly spaced
  in the exponent.
\<close>

definition logspace :: "real \<Rightarrow> real \<Rightarrow> nat \<Rightarrow> real list" where
  "logspace a b num =
     map (\<lambda>i. 10 powr (a + real i * ((b - a) / real (num - 1)))) [0..<num]"

section \<open>classes.py: fitparameters\<close>

text \<open>
  The bounds of a parameter default to \<open>-np.inf\<close> and \<open>np.inf\<close>, so a bound is a real
  or one of the two infinities; \<open>x < b\<close> and \<open>x > b\<close> compare a real with a bound.
\<close>

datatype bound = NegInf | Finite real | PosInf

fun less_bound :: "real \<Rightarrow> bound \<Rightarrow> bool" where
  "less_bound x NegInf = False"
| "less_bound x (Finite b) = (x < b)"
| "less_bound x PosInf = True"

fun greater_bound :: "real \<Rightarrow> bound \<Rightarrow> bool" where
  "greater_bound x NegInf = True"
| "greater_bound x (Finite b) = (x > b)"
| "greater_bound x PosInf = False"

text \<open>
  One entry of the dictionary \<open>fitpars\<close> is itself a dictionary. Its keys \<open>min\<close>,
  \<open>max\<close> and \<open>dx\<close> exist only for a parameter added with \<open>fixed=False\<close>, and
  \<open>value_fit\<close> only after \<open>setfit\<close>: an absent key is \<open>None\<close>.
\<close>

record fitpar =
  fp_key :: string
  fp_value_init :: real
  fp_fixed :: bool
  fp_min :: "bound option"
  fp_max :: "bound option"
  fp_dx :: "real option"
  fp_value_fit :: "real option"

record fitparameters =
  fitpars :: "string \<rightharpoonup> fitpar"
  keysall :: "string list"
  keysfit :: "string list"
  keys2d :: "string list"

definition init_fitparameters :: fitparameters where
  "init_fitparameters = \<lparr>fitpars = Map.empty, keysall = [], keysfit = [], keys2d = []\<rparr>"

text \<open>\<open>add(key, value, fixed, min, max, dx, text, is2D)\<close>; \<open>text\<close> is never read.\<close>

definition add ::
  "fitparameters \<Rightarrow> string \<Rightarrow> real \<Rightarrow> bool \<Rightarrow> bound \<Rightarrow> bound \<Rightarrow> real option \<Rightarrow> bool
     \<Rightarrow> fitparameters" where
  "add self k v fixed mn mx dx is2D =
     (let dx1 = (case dx of None \<Rightarrow> 0.1 * v | Some d \<Rightarrow> d);
          fp = \<lparr>fp_key = k, fp_value_init = v, fp_fixed = fixed,
                fp_min = (if fixed then None else Some mn),
                fp_max = (if fixed then None else Some mx),
                fp_dx = (if fixed then None else Some (if dx1 \<noteq> 0 then \<bar>dx1\<bar> else 0.1)),
                fp_value_fit = None\<rparr>
      in self\<lparr>fitpars := (fitpars self)(k \<mapsto> fp),
              keysall := keysall self @ [k],
              keys2d := (if is2D then keys2d self @ [k] else keys2d self),
              keysfit := (if fixed then keysfit self else keysfit self @ [k])\<rparr>)"

definition default_fp :: "fitparameters \<Rightarrow> string \<Rightarrow> real \<Rightarrow> fitparameters" where
  "default_fp self k v =
     (if k \<notin> set (keysall self) then add self k v True NegInf PosInf None False else self)"

definition set_fp :: "fitparameters \<Rightarrow> string \<Rightarrow> real \<Rightarrow> py_error + fitparameters" where
  "set_fp self k v =
     (case fitpars self k of
        None \<Rightarrow> Inl (KeyError k)
      | Some fp \<Rightarrow> Inr (self\<lparr>fitpars := (fitpars self)(k \<mapsto> fp\<lparr>fp_value_init := v\<rparr>)\<rparr>))"

text \<open>
  \<open>setfit\<close>: the loop over \<open>enumerate(self.keysfit)\<close>. The right-hand side
  \<open>mclist[i]\<close> is evaluated before the target \<open>self.fitpars[key]\<close>.
\<close>

fun setfit_loop ::
  "fitparameters \<Rightarrow> real list \<Rightarrow> nat \<Rightarrow> string list \<Rightarrow> py_error + fitparameters" where
  "setfit_loop self mclist i [] = Inr self"
| "setfit_loop self mclist i (k # ks) =
     (if length mclist \<le> i then Inl IndexError
      else (case fitpars self k of
              None \<Rightarrow> Inl (KeyError k)
            | Some fp \<Rightarrow>
                setfit_loop
                  (self\<lparr>fitpars := (fitpars self)(k \<mapsto> fp\<lparr>fp_value_fit := Some (mclist ! i)\<rparr>)\<rparr>)
                  mclist (Suc i) ks))"

definition setfit :: "fitparameters \<Rightarrow> real list \<Rightarrow> py_error + fitparameters" where
  "setfit self mclist = setfit_loop self mclist 0 (keysfit self)"

text \<open>\<open>get(key, Init)\<close> with \<open>attr=None\<close>: the initial or the fitted value.\<close>

definition get :: "fitparameters \<Rightarrow> string \<Rightarrow> bool \<Rightarrow> py_error + real" where
  "get self k Init =
     (case fitpars self k of
        None \<Rightarrow> Inl (KeyError k)
      | Some fp \<Rightarrow>
          (case fp_value_fit fp of
             None \<Rightarrow> Inr (fp_value_init fp)
           | Some vf \<Rightarrow> if Init then Inr (fp_value_init fp) else Inr vf))"

text \<open>\<open>get(key, attr=a)\<close>: the raw entry \<open>self.fitpars[key][a]\<close>.\<close>

datatype attr_value = V_str string | V_float real | V_bool bool | V_bound bound

definition fitpar_attr :: "fitpar \<Rightarrow> string \<Rightarrow> attr_value option" where
  "fitpar_attr fp a =
     (if a = ''key'' then Some (V_str (fp_key fp))
      else if a = ''value_init'' then Some (V_float (fp_value_init fp))
      else if a = ''fixed'' then Some (V_bool (fp_fixed fp))
      else if a = ''min'' then map_option V_bound (fp_min fp)
      else if a = ''max'' then map_option V_bound (fp_max fp)
      else if a = ''dx'' then map_option V_float (fp_dx fp)
      else if a = ''value_fit'' then map_option V_float (fp_value_fit fp)
      else None)"

definition get_attr :: "fitparameters \<Rightarrow> string \<Rightarrow> string \<Rightarrow> py_error + attr_value" where
  "get_attr self k a =
     (case fitpars self k of
        None \<Rightarrow> Inl (KeyError k)
      | Some fp \<Rightarrow> (case fitpar_attr fp a of None \<Rightarrow> Inl (KeyError a) | Some v \<Rightarrow> Inr v))"

definition get2d :: "fitparameters \<Rightarrow> bool \<Rightarrow> py_error + real list" where
  "get2d self Init = map_raise (\<lambda>k. get self k Init) (keys2d self)"

definition getfit :: "fitparameters \<Rightarrow> bool \<Rightarrow> py_error + real list" where
  "getfit self Init = map_raise (\<lambda>k. get self k Init) (keysfit self)"

definition getfit_attr :: "fitparameters \<Rightarrow> string \<Rightarrow> py_error + attr_value list" where
  "getfit_attr self a = map_raise (\<lambda>k. get_attr self k a) (keysfit self)"

definition getmc :: "fitparameters \<Rightarrow> string \<Rightarrow> real list \<Rightarrow> py_error + real" where
  "getmc self k parlist =
     (case fitpars self k of
        None \<Rightarrow> Inl (KeyError k)
      | Some fp \<Rightarrow>
          if fp_fixed fp then Inr (fp_value_init fp)
          else (case list_index (keysfit self) k of
                  None \<Rightarrow> Inl (ValueError ''not in list'')
                | Some j \<Rightarrow> if j < length parlist then Inr (parlist ! j) else Inl IndexError))"

definition get2d_fromlist :: "fitparameters \<Rightarrow> real list \<Rightarrow> py_error + real list" where
  "get2d_fromlist self parlist = map_raise (\<lambda>k. getmc self k parlist) (keys2d self)"

text \<open>
  \<open>checkbounds\<close>: for each free key in order, \<open>parlist[i]\<close> is read first, then
  \<open>self.fitpars[key]['min']\<close>, then \<open>['max']\<close>. Nothing is written: on success the
  registry is returned as it was.
\<close>

fun checkbounds_loop ::
  "fitparameters \<Rightarrow> real list \<Rightarrow> nat \<Rightarrow> string list \<Rightarrow> py_error + fitparameters" where
  "checkbounds_loop self parlist i [] = Inr self"
| "checkbounds_loop self parlist i (k # ks) =
     (if length parlist \<le> i then Inl IndexError
      else (case fitpars self k of
              None \<Rightarrow> Inl (KeyError k)
            | Some fp \<Rightarrow>
                (case fp_min fp of
                   None \<Rightarrow> Inl (KeyError ''min'')
                 | Some mn \<Rightarrow>
                     if less_bound (parlist ! i) mn then Inl (ValueError ''out of bounds'')
                     else (case fp_max fp of
                             None \<Rightarrow> Inl (KeyError ''max'')
                           | Some mx \<Rightarrow>
                               if greater_bound (parlist ! i) mx
                               then Inl (ValueError ''out of bounds'')
                               else checkbounds_loop self parlist (Suc i) ks))))"

definition checkbounds :: "fitparameters \<Rightarrow> real list \<Rightarrow> py_error + fitparameters" where
  "checkbounds self parlist = checkbounds_loop self parlist 0 (keysfit self)"

text \<open>
  Every key in one of the three key lists was put there by \<open>add\<close>, which also stored its
  entry. This is what holds of every registry built from the empty one.
\<close>

definition registered :: "fitparameters \<Rightarrow> bool" where
  "registered self =
     (list_all (\<lambda>k. fitpars self k \<noteq> None) (keysall self)
      \<and> list_all (\<lambda>k. fitpars self k \<noteq> None) (keysfit self)
      \<and> list_all (\<lambda>k. fitpars self k \<noteq> None) (keys2d self))"

text \<open>The component of a vector is strictly outside the bounds stored for a free key.\<close>

definition outside_bounds :: "fitparameters \<Rightarrow> string \<Rightarrow> real \<Rightarrow> bool" where
  "outside_bounds self k x =
     (case fitpars self k of
        None \<Rightarrow> False
      | Some fp \<Rightarrow>
          (case fp_min fp of None \<Rightarrow> False | Some mn \<Rightarrow> less_bound x mn)
          \<or> (case fp_max fp of None \<Rightarrow> False | Some mx \<Rightarrow> greater_bound x mx))"

text \<open>Every free key has an entry that carries both bounds.\<close>

definition free_bounded :: "fitparameters \<Rightarrow> bool" where
  "free_bounded self =
     list_all (\<lambda>k. case fitpars self k of
                      None \<Rightarrow> False
                    | Some fp \<Rightarrow> fp_min fp \<noteq> None \<and> fp_max fp \<noteq> None) (keysfit self)"

text \<open>Two registries built by \<open>add\<close>, used as concrete inputs below.\<close>

definition reg_two :: fitparameters where
  "reg_two = add (add init_fitparameters ''pps'' 2 False (Finite 0) PosInf None False)
                 ''P break'' 10 False (Finite 1) (Finite 100) (Some 0) True"

definition reg_refixed :: fitparameters where
  "reg_refixed =
     add (add (add init_fitparameters ''a'' 1 False NegInf PosInf None False)
              ''b'' 1 False (Finite 0) (Finite 2) None False)
         ''a'' 1 True NegInf PosInf None False"

section \<open>classes.py: epos\<close>

text \<open>
  The modules \<open>EPOS.multi\<close> and \<open>cgs\<close> are not among the sources at hand. The functions
  of \<open>EPOS.multi\<close> whose results are stored, and the constants of \<open>cgs\<close>, are parameters
  of the operations that use them. \<open>EPOS.multi.indices\<close> and the other calls whose results
  are dropped only print.
\<close>

record multi_module =
  multi_frequency :: "int list \<Rightarrow> int list \<times> int list"
  multi_periodratio :: "int list \<Rightarrow> real list \<Rightarrow> real list \<times> real list"
  multi_cdf :: "int list \<Rightarrow> real list"
  multi_nth_planet :: "int list \<Rightarrow> real list \<Rightarrow> int list \<times> int list \<times> int list \<times> int list list"

record cgs_module =
  cgs_G :: real
  cgs_Msun :: real
  cgs_Rsun :: real
  cgs_day :: real

text \<open>The dictionary \<open>epos.multi\<close> that \<open>set_observation\<close> fills.\<close>

record multi_dict =
  multi_bin :: "int list"
  multi_count :: "int list"
  multi_pl_cnt :: "int list"
  multi_Pratio :: "real list"
  multi_Pinner :: "real list"
  multi_cdf_obs :: "real list"

text \<open>
  The dictionary \<open>self.occurrence\<close>: each of its entries \<open>xzoom\<close>, \<open>yzoom\<close> and
  \<open>bin\<close> is a dictionary of two lists of bins (\<open>x\<close> and \<open>y\<close>, for \<open>bin\<close> \<open>x\<close> and
  \<open>y in\<close>), absent until it is assigned. A bin is a row of edges.
\<close>

record occurrence_dict =
  occ_xzoom :: "(matrix \<times> matrix) option"
  occ_yzoom :: "(matrix \<times> matrix) option"
  occ_bin :: "(matrix \<times> matrix) option"

text \<open>
  The dictionary \<open>self.pfm\<close> of \<open>set_population\<close>. The keys \<open>tag\<close>, \<open>inc\<close> and
  \<open>dP\<close> may be absent, the limits are assigned last. An entry of \<open>dP\<close> is a float that
  may be \<open>inf\<close> or \<open>nan\<close>.
\<close>

record pfm_dict =
  pfm_name :: string
  pfm_sma :: "real list"
  pfm_M :: "real list"
  pfm_ID :: "int list"
  pfm_tag :: "real list option"
  pfm_inc :: "real list option"
  pfm_P :: "real list"
  pfm_dP :: "real option list option"
  pfm_np :: nat
  pfm_ns :: nat
  pfm_M_limits :: "(real \<times> real) option"
  pfm_P_limits :: "(real \<times> real) option"

text \<open>
  The attributes of an \<open>epos\<close> object that the operations below read or write. An
  attribute whose presence the code tests (\<open>hasattr\<close>) or that it reads before any method
  assigned it (\<open>self.PDF\<close> in \<open>set_ranges\<close>, \<open>self.Parametric\<close> in \<open>set_multi\<close>) is an
  option, \<open>None\<close> while the object has no such attribute. The other attributes are read
  only after the flag that guards them is set; before that their value is arbitrary.
  \<open>Range\<close>, \<open>X\<close>, \<open>Y\<close>, \<open>fitpars\<close>, \<open>multi\<close> are \<open>Range_set\<close>, \<open>X_mesh\<close>,
  \<open>Y_mesh\<close>, \<open>epos_fitpars\<close>, \<open>epos_multi\<close> here.
\<close>

record epos =
  RV :: bool
  Multi :: bool
  RandomPairing :: bool
  Observation :: bool
  Range_set :: bool
  DetectionEfficiency :: bool
  MassRadius :: bool
  PDF :: "bool option"
  Parametric :: "bool option"
  obs_xvar :: "real list"
  obs_yvar :: "real list"
  obs_starID :: "int list"
  nstars :: real
  obs_xlim :: "(real \<times> real) option"
  obs_ylim :: "(real \<times> real) option"
  epos_multi :: multi_dict
  eff_xvar :: "real list"
  eff_yvar :: "real list"
  eff_2D :: matrix
  eff_xlim :: "real \<times> real"
  eff_ylim :: "real \<times> real"
  Mstar :: real
  Rstar :: real
  completeness :: "matrix option"
  xtrim :: "real \<times> real"
  ytrim :: "real \<times> real"
  xzoom :: "real \<times> real"
  yzoom :: "real \<times> real"
  Zoom :: bool
  MC_xvar :: "real list"
  MC_yvar :: "real list"
  MC_eff :: matrix
  plotpars_area :: string
  scale_x :: "real option"
  scale_y :: "real option"
  scale :: "real option"
  X_mesh :: matrix
  Y_mesh :: matrix
  masslimits :: "real \<times> real"
  in_ytrim :: "real \<times> real"
  in_yvar :: "real list"
  scale_in_y :: "real option"
  scale_in :: "real option"
  X_in :: matrix
  Y_in :: matrix
  xticks :: "real list"
  yticks :: "real list"
  func :: "matrix \<Rightarrow> matrix \<Rightarrow> real list \<Rightarrow> matrix"
  epos_fitpars :: fitparameters
  spacing :: "string option"
  pfm :: "pfm_dict option"
  mod_xlim :: "(real \<times> real) option"
  mod_ylim :: "(real \<times> real) option"
  occurrence :: "occurrence_dict option"

text \<open>
  \<open>__init__\<close>: the flags it sets. The attributes it does not assign are left as they
  are in \<open>blank\<close>, except those that are options.
\<close>

definition init_epos :: "epos \<Rightarrow> bool \<Rightarrow> epos" where
  "init_epos blank rv =
     blank\<lparr>RV := rv, Multi := False, RandomPairing := False, Observation := False,
           Range_set := False, DetectionEfficiency := False, MassRadius := False,
           PDF := None, Parametric := None, pfm := None, occurrence := None\<rparr>"

text \<open>
  The plot limits 5 percent wider than the data: \<open>d = (hi/lo)**0.05\<close> and
  \<open>[lo/d, hi*d]\<close>. Both are finite exactly when \<open>lo\<close> is not zero and \<open>hi/lo\<close> is
  positive.
\<close>

definition wider_limits :: "real \<Rightarrow> real \<Rightarrow> (real \<times> real) option" where
  "wider_limits lo hi =
     (if lo \<noteq> 0 \<and> 0 < hi / lo
      then Some (lo / (hi / lo) powr 0.05, hi * (hi / lo) powr 0.05)
      else None)"

text \<open>
  \<open>set_observation(xvar, yvar, starID, nstars)\<close> for one-dimensional arguments. Its first
  five lines sort and store the arrays: \<open>np.lexsort\<close> raises ValueError for keys of
  different lengths, and \<open>yvar[order]\<close> raises IndexError when \<open>yvar\<close> is too short for
  an index of \<open>order\<close>.
\<close>

definition store_observation ::
  "epos \<Rightarrow> real list \<Rightarrow> real list \<Rightarrow> int list \<Rightarrow> real \<Rightarrow> py_error + epos" where
  "store_observation self xvar yvar starID n =
     (if length xvar \<noteq> length starID then Inl (ValueError ''all keys need to be the same shape'')
      else
        (let order = lexsort xvar starID in
         if list_ex (\<lambda>i. length yvar \<le> i) order then Inl IndexError
         else Inr (self\<lparr>obs_xvar := take_idx xvar order, obs_yvar := take_idx yvar order,
                        obs_starID := take_idx starID order, nstars := n\<rparr>)))"

text \<open>
  The rest of \<open>set_observation\<close> works on the stored arrays: the assertion on their sizes,
  the plot limits (\<open>min\<close> of an empty array raises ValueError), the flag, and the
  statistics of \<open>EPOS.multi\<close>.
\<close>

definition set_observation ::
  "multi_module \<Rightarrow> epos \<Rightarrow> real list \<Rightarrow> real list \<Rightarrow> int list \<Rightarrow> real \<Rightarrow> py_error + epos" where
  "set_observation M self xvar yvar starID n =
     (case store_observation self xvar yvar starID n of
        Inl e \<Rightarrow> Inl e
      | Inr s1 \<Rightarrow>
          if \<not> (length (obs_xvar s1) = length (obs_yvar s1)
                 \<and> length (obs_yvar s1) = length (obs_starID s1))
          then Inl (AssertionError ''arrays not same length'')
          else if obs_xvar s1 = [] then Inl (ValueError ''min() arg is an empty sequence'')
          else
            (let xmin = py_min (obs_xvar s1); xmax = py_max (obs_xvar s1);
                 ymin = py_min (obs_yvar s1); ymax = py_max (obs_yvar s1);
                 freq = multi_frequency M (obs_starID s1);
                 pr = multi_periodratio M (obs_starID s1) (obs_xvar s1)
             in Inr (s1\<lparr>obs_xlim := wider_limits xmin xmax,
                         obs_ylim := wider_limits ymin ymax,
                         Observation := True,
                         epos_multi :=
                           \<lparr>multi_bin = fst freq, multi_count = snd freq,
                            multi_pl_cnt = map (\<lambda>(b, c). b * c) (zip (fst freq) (snd freq)),
                            multi_Pratio = fst pr, multi_Pinner = snd pr,
                            multi_cdf_obs = multi_cdf M (obs_starID s1)\<rparr>\<rparr>)))"

text \<open>
  \<open>set_survey(xvar, yvar, eff_2D, Rstar, Mstar)\<close>. A nested list is a two-dimensional
  array when it has rows and they have one length. The prefactor of the transit probability
  is computed with Python floats: a division by 0 raises ZeroDivisionError, and a negative
  number under a fractional power raises ValueError (Python 2). \<open>Pindex\<close> and the
  prefactor are not kept as attributes here.
\<close>

definition fgeo_prefac :: "cgs_module \<Rightarrow> real \<Rightarrow> real \<Rightarrow> py_error + real" where
  "fgeo_prefac C rstar mstar =
     (if cgs_G C * mstar * cgs_Msun C = 0 then Inl ZeroDivisionError
      else if 4 * pi ^ 2 / (cgs_G C * mstar * cgs_Msun C) < 0
      then Inl (ValueError ''negative number cannot be raised to a fractional power'')
      else if cgs_day C < 0
      then Inl (ValueError ''negative number cannot be raised to a fractional power'')
      else if cgs_day C = 0 then Inl ZeroDivisionError
      else Inr (rstar * cgs_Rsun C * (4 * pi ^ 2 / (cgs_G C * mstar * cgs_Msun C)) powr (1 / 3)
                / cgs_day C powr (2 / 3)))"

text \<open>
  The completeness of a transit survey is \<open>eff_2D * fgeo_prefac * P ** Pindex\<close> on numpy
  arrays: it has an entry that is not finite when a period is not positive.
\<close>

definition set_survey ::
  "cgs_module \<Rightarrow> epos \<Rightarrow> real list \<Rightarrow> real list \<Rightarrow> matrix \<Rightarrow> real \<Rightarrow> real \<Rightarrow> py_error + epos" where
  "set_survey C self xvar yvar eff rstar mstar =
     (if eff = [] \<or> \<not> list_all (\<lambda>row. length row = length (hd eff)) eff
      then Inl (AssertionError ''Detection efficiency must by a 2dim array'')
      else if \<not> has_shape eff (length xvar) (length yvar)
      then Inl (ValueError ''Mismatching detection efficiency'')
      else if xvar = [] \<or> yvar = [] then Inl (ValueError ''min() arg is an empty sequence'')
      else
        (let s1 = self\<lparr>eff_xvar := xvar, eff_yvar := yvar, eff_2D := eff,
                       eff_xlim := (py_min xvar, py_max xvar),
                       eff_ylim := (py_min yvar, py_max yvar),
                       Mstar := mstar\<rparr>
         in if RV s1
            then Inr (s1\<lparr>completeness := Some eff, DetectionEfficiency := True\<rparr>)
            else (case fgeo_prefac C rstar mstar of
                    Inl e \<Rightarrow> Inl e
                  | Inr f \<Rightarrow>
                      Inr (s1\<lparr>Rstar := rstar,
                              completeness :=
                                (if list_all (\<lambda>p. 0 < p) xvar
                                 then Some (map (\<lambda>(p, row). map (\<lambda>e. e * f * p powr (- 2 / 3)) row)
                                              (zip xvar eff))
                                 else None),
                              DetectionEfficiency := True\<rparr>))))"

text \<open>
  \<open>set_bins(xbins, ybins, xgrid, ygrid, Grid)\<close>. The argument \<open>xbins\<close> is one bin (a
  list of numbers, \<open>np.ndim\<close> 1), a list of bins (\<open>np.ndim\<close> 2; a bin is a pair of
  edges), or of another dimension. The empty list of bins is the empty list, of dimension 1.
\<close>

datatype bins_arg = Bins1 "real list" | Bins2 "(real \<times> real) list" | BinsND

definition bin_rows :: "(real \<times> real) list \<Rightarrow> matrix" where
  "bin_rows ps = map (\<lambda>(i, j). [i, j]) ps"

definition bin_edges :: "bins_arg \<Rightarrow> real list option \<Rightarrow> py_error + matrix" where
  "bin_edges bins grid =
     (case grid of
        None \<Rightarrow>
          (case bins of
             Bins1 b \<Rightarrow> if length b = 2 then Inr [b] else Inl (AssertionError [])
           | Bins2 ps \<Rightarrow> if ps = [] then Inl (AssertionError []) else Inr (bin_rows ps)
           | BinsND \<Rightarrow> Inl (ValueError ''wrong bin dimensions''))
      | Some g \<Rightarrow> Inr (bin_rows (zip (butlast g) (tl g))))"

text \<open>
  \<open>np.tile(a, (m, 1))\<close> for a list of bins: the whole block of rows, \<open>m\<close> times. The
  empty list is an array of shape \<open>(0,)\<close>, whose tiling has \<open>m\<close> empty rows.
\<close>

definition np_tile :: "matrix \<Rightarrow> nat \<Rightarrow> matrix" where
  "np_tile a m = (if a = [] then replicate m [] else concat (replicate m a))"

definition np_shape :: "matrix \<Rightarrow> nat list" where
  "np_shape a = (if a = [] then [0] else [length a, length (hd a)])"

definition set_bins ::
  "epos \<Rightarrow> bins_arg \<Rightarrow> bins_arg \<Rightarrow> real list option \<Rightarrow> real list option \<Rightarrow> bool
     \<Rightarrow> py_error + epos" where
  "set_bins self xbins ybins xgrid ygrid Grid =
     (let focc = (case occurrence self of
                    None \<Rightarrow> \<lparr>occ_xzoom = None, occ_yzoom = None, occ_bin = None\<rparr>
                  | Some d \<Rightarrow> d)
      in case bin_edges xbins xgrid of
           Inl e \<Rightarrow> Inl e
         | Inr xb \<Rightarrow>
             (case bin_edges ybins ygrid of
                Inl e \<Rightarrow> Inl e
              | Inr yb \<Rightarrow>
                  if Grid
                  then Inr (self\<lparr>occurrence :=
                              Some (focc\<lparr>occ_bin := Some (np_tile xb (length yb),
                                                          np_tile yb (length xb))\<rparr>)\<rparr>)
                  else if np_shape xb \<noteq> np_shape yb
                  then Inl (ValueError ''unequal amount of bins. Use Grid=True?'')
                  else Inr (self\<lparr>occurrence := Some (focc\<lparr>occ_bin := Some (xb, yb)\<rparr>)\<rparr>)))"

text \<open>The rows of \<open>occurrence['bin']\<close>: the \<open>x\<close> bin next to the \<open>y in\<close> bin.\<close>

definition bin_pairs :: "epos \<Rightarrow> (real list \<times> real list) list" where
  "bin_pairs self =
     (case occurrence self of
        None \<Rightarrow> []
      | Some d \<Rightarrow> (case occ_bin d of None \<Rightarrow> [] | Some (bx, byin) \<Rightarrow> zip bx byin))"

text \<open>
  Concrete inputs for the runs below: an object after \<open>__init__\<close> (the attributes not yet
  assigned are unspecified), stand-ins for the functions of \<open>EPOS.multi\<close>, and the constants
  of \<open>cgs\<close>.
\<close>

definition new_epos :: epos where
  "new_epos = init_epos undefined False"

definition multi_none :: multi_module where
  "multi_none =
     \<lparr>multi_frequency = (\<lambda>ids. ([], [])), multi_periodratio = (\<lambda>ids ps. ([], [])),
      multi_cdf = (\<lambda>ids. []), multi_nth_planet = (\<lambda>ids ps. ([], [], [], []))\<rparr>"

definition cgs_values :: cgs_module where
  "cgs_values = \<lparr>cgs_G = 6.67259 / 10 ^ 8, cgs_Msun = 1.99 * 10 ^ 33,
                 cgs_Rsun = 6.96 * 10 ^ 10, cgs_day = 86400\<rparr>"

text \<open>
  \<open>set_parametric(func)\<close>: \<open>self.pdfpars\<close> and \<open>self.fitpars\<close> are one new registry.
  \<open>set_massradius(MR, name, masslimits)\<close> stores the limits; the function \<open>MR\<close> is
  called only to print. \<open>set_multi(spacing)\<close> reads \<open>self.Parametric\<close>.
\<close>

definition set_parametric ::
  "epos \<Rightarrow> (matrix \<Rightarrow> matrix \<Rightarrow> real list \<Rightarrow> matrix) \<Rightarrow> epos" where
  "set_parametric self f =
     self\<lparr>func := f, epos_fitpars := init_fitparameters, Parametric := Some True,
          PDF := Some True\<rparr>"

definition set_massradius :: "epos \<Rightarrow> real \<times> real \<Rightarrow> py_error + epos" where
  "set_massradius self limits =
     (if MassRadius self
      then Inl (ValueError ''Already defined a Mass-Radius conversion function '')
      else Inr (self\<lparr>MassRadius := True, masslimits := limits\<rparr>))"

definition set_multi :: "epos \<Rightarrow> string option \<Rightarrow> py_error + epos" where
  "set_multi self sp =
     (case Parametric self of
        None \<Rightarrow> Inl (AttributeError ''Parametric'')
      | Some par \<Rightarrow>
          if \<not> par then Inl (ValueError ''Define a parametric planet population first'')
          else Inr (self\<lparr>Multi := True, RandomPairing := (sp = None), spacing := sp\<rparr>))"

text \<open>
  \<open>_trimarray(array, trim)\<close>: \<open>array[1]\<close> and \<open>array[-2]\<close> need two entries. The indices
  are Python integers: \<open>imin\<close> is \<open>-1\<close> when no entry is below \<open>trim[0]\<close>.
\<close>

definition trimarray :: "real list \<Rightarrow> real \<times> real \<Rightarrow> py_error + int \<times> int" where
  "trimarray array trim =
     (if length array < 2 then Inl IndexError
      else
        (let imin = (if fst trim < array ! 1 then 0
                     else int (searchsorted_left array (fst trim)) - 1);
             imax = (if snd trim > array ! (length array - 2) then int (length array)
                     else int (searchsorted_left array (snd trim)) + 1)
         in Inr (imin, imax)))"

text \<open>
  The first part of \<open>set_ranges\<close>, after the three checks: the trimmed and the zoomed
  region, and whether the zoom is one. An argument that is \<open>None\<close> takes the enclosing
  region, another one is clipped to it with \<open>max\<close> and \<open>min\<close>.
\<close>

definition clip_range :: "(real \<times> real) option \<Rightarrow> real \<times> real \<Rightarrow> real \<times> real" where
  "clip_range r outer =
     (case r of
        None \<Rightarrow> outer
      | Some (lo, hi) \<Rightarrow> (max lo (fst outer), min hi (snd outer)))"

definition range_bounds ::
  "epos \<Rightarrow> (real \<times> real) option \<Rightarrow> (real \<times> real) option \<Rightarrow> (real \<times> real) option
     \<Rightarrow> (real \<times> real) option \<Rightarrow> epos" where
  "range_bounds self xt yt xz yz =
     (let s1 = self\<lparr>xtrim := clip_range xt (eff_xlim self)\<rparr>;
          s2 = s1\<lparr>ytrim := clip_range yt (eff_ylim s1)\<rparr>;
          s3 = s2\<lparr>xzoom := clip_range xz (xtrim s2)\<rparr>;
          s4 = s3\<lparr>yzoom := clip_range yz (ytrim s3)\<rparr>
      in s4\<lparr>Zoom := (if xz = None \<and> yz = None then False
                      else if xzoom s4 = xtrim s4 \<and> yzoom s4 = ytrim s4 then False
                      else True)\<rparr>)"

text \<open>
  \<open>n / area(a[-1]/a[0])\<close> for an array \<open>a\<close> of \<open>n\<close> entries, \<open>n > 0\<close>, where \<open>area\<close> is
  \<open>np.log\<close> or \<open>np.log10\<close>. In floats: for \<open>a[0] = 0 < a[-1]\<close> the quotient is \<open>inf\<close>,
  its logarithm \<open>inf\<close>, and the scale 0; for \<open>a[-1] = 0\<close> and \<open>a[0]\<close> not 0 the logarithm
  is \<open>-inf\<close> and the scale 0 again; a negative quotient, \<open>0/0\<close>, and the logarithm 0 of the
  quotient 1 give \<open>nan\<close> or \<open>inf\<close>.
\<close>

definition log_scale :: "(real \<Rightarrow> real) \<Rightarrow> real list \<Rightarrow> real option" where
  "log_scale area a =
     (let lo = hd a; hi = last a in
      if lo = 0 then (if 0 < hi then Some 0 else None)
      else if hi / lo < 0 then None
      else if hi = 0 then Some 0
      else if area (hi / lo) = 0 then None
      else Some (real (length a) / area (hi / lo)))"

definition times_opt :: "real option \<Rightarrow> real option \<Rightarrow> real option" where
  "times_opt a b = (case (a, b) of (Some x, Some y) \<Rightarrow> Some (x * y) | _ \<Rightarrow> None)"

text \<open>\<open>[[i, j] for i, j in zip(g[:-1], g[1:])]\<close>.\<close>

definition consecutive :: "real list \<Rightarrow> matrix" where
  "consecutive g = map (\<lambda>(i, j). [i, j]) (zip (butlast g) (tl g))"

text \<open>
  \<open>set_ranges(xtrim, ytrim, xzoom, yzoom, LogArea, Occ)\<close>, in the parts its comments
  mark. The grid for the observable: the slices of the survey grid that \<open>_trimarray\<close>
  selects, and the scale factors (\<open>a[-1]\<close> of an empty slice raises IndexError).
\<close>

definition prep_grid :: "epos \<Rightarrow> bool \<Rightarrow> py_error + epos" where
  "prep_grid self LogArea =
     (case trimarray (eff_xvar self) (xtrim self) of
        Inl e \<Rightarrow> Inl e
      | Inr (ixmin, ixmax) \<Rightarrow>
          (case trimarray (eff_yvar self) (ytrim self) of
             Inl e \<Rightarrow> Inl e
           | Inr (iymin, iymax) \<Rightarrow>
               (let area = (if LogArea then log 10 else ln);
                    xs = py_slice (eff_xvar self) ixmin ixmax;
                    ys = py_slice (eff_yvar self) iymin iymax
                in if xs = [] \<or> ys = [] then Inl IndexError
                   else Inr (self\<lparr>MC_xvar := xs, MC_yvar := ys,
                                  MC_eff := map (\<lambda>row. py_slice row iymin iymax)
                                              (py_slice (eff_2D self) ixmin ixmax),
                                  plotpars_area := (if LogArea then ''d log'' else ''d ln''),
                                  scale_x := log_scale area xs,
                                  scale_y := log_scale area ys,
                                  scale := times_opt (log_scale area xs) (log_scale area ys),
                                  X_mesh := fst (meshgrid_ij xs ys),
                                  Y_mesh := snd (meshgrid_ij xs ys)\<rparr>))))"

text \<open>
  The grid for the PDF. \<open>self.PDF\<close> exists only after \<open>set_parametric\<close>. With a
  mass-radius relation the input grid is \<open>np.logspace(*np.log10(self.masslimits))\<close>, 50
  points. For a limit that is not positive its entries are \<open>nan\<close>, where Python goes on
  with a warning; the model stops there with the FloatingPointError that numpy raises under
  \<open>np.seterr(all='raise')\<close>, because the caller's function cannot be applied to \<open>nan\<close>
  in the reals.
\<close>

definition prep_pdf_grid :: "epos \<Rightarrow> bool \<Rightarrow> py_error + epos" where
  "prep_pdf_grid self LogArea =
     (case PDF self of
        None \<Rightarrow> Inl (AttributeError ''PDF'')
      | Some pdf_flag \<Rightarrow>
          if \<not> pdf_flag then Inr self
          else if MassRadius self then
            (if \<not> (0 < fst (masslimits self) \<and> 0 < snd (masslimits self))
             then Inl (FloatingPointError ''invalid value encountered in log10'')
             else
               (let ys = logspace (log 10 (fst (masslimits self)))
                                  (log 10 (snd (masslimits self))) 50;
                    sy = log_scale (if LogArea then log 10 else ln) ys
                in Inr (self\<lparr>in_ytrim := masslimits self, in_yvar := ys,
                              scale_in_y := sy,
                              scale_in := times_opt (scale_x self) sy,
                              X_in := fst (meshgrid_ij (MC_xvar self) ys),
                              Y_in := snd (meshgrid_ij (MC_xvar self) ys)\<rparr>)))
          else Inr (self\<lparr>in_ytrim := ytrim self, in_yvar := MC_yvar self,
                         scale_in_y := scale_y self, scale_in := scale self,
                         X_in := X_mesh self, Y_in := Y_mesh self\<rparr>))"

text \<open>The plot ticks, and the flag.\<close>

definition plot_ticks :: "epos \<Rightarrow> epos" where
  "plot_ticks self =
     self\<lparr>xticks := (if RV self then [1, 10, 100] else [1, 10, 100, 1000]),
          yticks := (if RV self then [1, 10, 100, 1000] else [0.5, 1, 2, 4, 10]),
          Range_set := True\<rparr>"

text \<open>The body of \<open>if Occ\<close>. The misspelt \<open>ValuError\<close> raises NameError.\<close>

definition occurrence_zoom :: "epos \<Rightarrow> py_error + epos" where
  "occurrence_zoom self =
     (if MassRadius self then Inl (NameError ''ValuError'')
      else
        (let focc = (case occurrence self of
                       None \<Rightarrow> \<lparr>occ_xzoom = None, occ_yzoom = None, occ_bin = None\<rparr>
                     | Some d \<Rightarrow> d);
             xz_row = [fst (xzoom self), snd (xzoom self)];
             yz_row = [fst (yzoom self), snd (yzoom self)]
         in Inr (self\<lparr>occurrence := Some (focc
              \<lparr>occ_xzoom := Some (replicate (length (MC_yvar self) - 1) xz_row,
                                  consecutive (MC_yvar self)),
               occ_yzoom := Some (consecutive (MC_xvar self),
                                  replicate (length (MC_xvar self) - 1) yz_row)\<rparr>)\<rparr>)))"

definition set_ranges ::
  "epos \<Rightarrow> (real \<times> real) option \<Rightarrow> (real \<times> real) option \<Rightarrow> (real \<times> real) option
     \<Rightarrow> (real \<times> real) option \<Rightarrow> bool \<Rightarrow> bool \<Rightarrow> py_error + epos" where
  "set_ranges self xt yt xz yz LogArea Occ =
     (if Range_set self then Inl (ValueError ''Range already defined'')
      else if \<not> Observation self then Inl (ValueError ''No observation defined'')
      else if \<not> DetectionEfficiency self then Inl (ValueError ''No detection effifiency defined'')
      else
        (case prep_grid (range_bounds self xt yt xz yz) LogArea of
           Inl e \<Rightarrow> Inl e
         | Inr s1 \<Rightarrow>
             (case prep_pdf_grid s1 LogArea of
                Inl e \<Rightarrow> Inl e
              | Inr s2 \<Rightarrow> if Occ then occurrence_zoom (plot_ticks s2) else Inr (plot_ticks s2))))"

text \<open>
  What \<open>set_survey\<close> leaves in the attributes of the survey: the limits are the least and
  the largest entry of each axis.
\<close>

definition surveyed :: "epos \<Rightarrow> bool" where
  "surveyed self =
     (eff_xlim self = (py_min (eff_xvar self), py_max (eff_xvar self))
      \<and> eff_ylim self = (py_min (eff_yvar self), py_max (eff_yvar self)))"

text \<open>
  A region is a pair of a lower and an upper bound. The lower bound of \<open>r\<close> is not below
  that of \<open>outer\<close> and its upper bound not above that of \<open>outer\<close>.
\<close>

definition not_beyond :: "real \<times> real \<Rightarrow> real \<times> real \<Rightarrow> bool" where
  "not_beyond r outer = (fst outer \<le> fst r \<and> snd r \<le> snd outer)"

text \<open>Both bounds of \<open>r\<close> lie in the closed interval between the bounds of \<open>outer\<close>.\<close>

definition bounds_inside :: "real \<times> real \<Rightarrow> real \<times> real \<Rightarrow> bool" where
  "bounds_inside r outer =
     (fst outer \<le> fst r \<and> fst r \<le> snd outer \<and> fst outer \<le> snd r \<and> snd r \<le> snd outer)"

text \<open>
  The region \<open>outer\<close> has its bounds in order, and a request that is given starts not
  above \<open>outer\<close> and ends not below it.
\<close>

definition reaches :: "(real \<times> real) option \<Rightarrow> real \<times> real \<Rightarrow> bool" where
  "reaches r outer =
     (fst outer \<le> snd outer
      \<and> (case r of None \<Rightarrow> True | Some (lo, hi) \<Rightarrow> lo \<le> snd outer \<and> fst outer \<le> hi))"

text \<open>
  A run: two planets observed, a survey grid of three periods and three radii, a
  parametric population.
\<close>

definition example_func :: "matrix \<Rightarrow> matrix \<Rightarrow> real list \<Rightarrow> matrix" where
  "example_func xm ym pars = map (map (\<lambda>x. 1)) xm"

definition example_survey :: epos where
  "example_survey =
     (case set_observation multi_none new_epos [10, 5] [1, 2] [1, 1] 1000 of
        Inl e \<Rightarrow> new_epos
      | Inr s1 \<Rightarrow>
          (case set_survey cgs_values s1 [1, 10, 100] [1, 2, 4]
                  [[1, 1, 1], [1, 1, 1], [1, 1, 1]] 1 1 of
             Inl e \<Rightarrow> new_epos
           | Inr s2 \<Rightarrow> set_parametric s2 example_func))"

text \<open>
  The attributes of the survey and of the regions, and those of the working grid, each as
  one tuple: the later parts of \<open>set_ranges\<close> leave them as they are.
\<close>

definition region_fields ::
  "epos \<Rightarrow> (real \<times> real) \<times> (real \<times> real) \<times> real list \<times> real list
     \<times> (real \<times> real) \<times> (real \<times> real) \<times> (real \<times> real) \<times> (real \<times> real)" where
  "region_fields s =
     (eff_xlim s, eff_ylim s, eff_xvar s, eff_yvar s, xtrim s, ytrim s, xzoom s, yzoom s)"

definition grid_fields ::
  "epos \<Rightarrow> real list \<times> real list \<times> matrix \<times> real option \<times> real option \<times> real option
     \<times> matrix \<times> matrix" where
  "grid_fields s =
     (MC_xvar s, MC_yvar s, MC_eff s, scale_x s, scale_y s, scale s, X_mesh s, Y_mesh s)"

text \<open>
  Two runs of \<open>set_ranges\<close> on the example survey, whose periods go from 1 to 100: one
  asks for the zoom region \<open>[200, 300]\<close>, the other for the trim region \<open>[1000, 2000]\<close>.
\<close>

definition example_zoom_outside :: epos where
  "example_zoom_outside =
     (case set_ranges example_survey None None (Some (200, 300)) None False False of
        Inl e \<Rightarrow> new_epos
      | Inr s \<Rightarrow> s)"

definition example_trim_outside :: epos where
  "example_trim_outside =
     (case set_ranges example_survey (Some (1000, 2000)) None None None False False of
        Inl e \<Rightarrow> new_epos
      | Inr s \<Rightarrow> s)"

section \<open>population.py: periodradius\<close>

text \<open>
  \<open>pps\<close> and the parameters of the two-dimensional function, from the registry or from
  the list \<open>fpara\<close> of an MCMC step.
\<close>

definition resolve_pars ::
  "epos \<Rightarrow> bool \<Rightarrow> real list option \<Rightarrow> py_error + real \<times> real list" where
  "resolve_pars self Init fpara =
     (case fpara of
        None \<Rightarrow>
          (case get (epos_fitpars self) ''pps'' Init of
             Inl e \<Rightarrow> Inl e
           | Inr pps \<Rightarrow>
               (case get2d (epos_fitpars self) Init of
                  Inl e \<Rightarrow> Inl e | Inr fpar2d \<Rightarrow> Inr (pps, fpar2d)))
      | Some l \<Rightarrow>
          (case getmc (epos_fitpars self) ''pps'' l of
             Inl e \<Rightarrow> Inl e
           | Inr pps \<Rightarrow>
               (case get2d_fromlist (epos_fitpars self) l of
                  Inl e \<Rightarrow> Inl e | Inr fpar2d \<Rightarrow> Inr (pps, fpar2d))))"

text \<open>
  \<open>pps * a / tot * sc\<close> on every entry of an array. When \<open>tot\<close> is 0 or the scale is
  not finite, every entry is \<open>inf\<close> or \<open>nan\<close>: the array is \<open>None\<close>.
\<close>

definition normalized :: "real \<Rightarrow> real \<Rightarrow> real option \<Rightarrow> real list \<Rightarrow> real list option" where
  "normalized pps tot sc a =
     (case sc of
        None \<Rightarrow> None
      | Some c \<Rightarrow> if tot = 0 then None else Some (map (\<lambda>v. pps * v / tot * c) a))"

definition normalized2 :: "real \<Rightarrow> real \<Rightarrow> real option \<Rightarrow> matrix \<Rightarrow> matrix option" where
  "normalized2 pps tot sc m =
     (case sc of
        None \<Rightarrow> None
      | Some c \<Rightarrow> if tot = 0 then None else Some (map (map (\<lambda>v. pps * v / tot * c)) m))"

text \<open>
  \<open>np.log(g[-1]/g[0])\<close>, finite when \<open>g[0]\<close> is not 0 and the quotient is positive.
  \<open>np.average(m, axis=1)\<close> and \<open>np.average(m, axis=0)\<close> of an array with rows and
  columns, times a float.
\<close>

definition ln_span :: "real list \<Rightarrow> real option" where
  "ln_span g = (if hd g \<noteq> 0 \<and> 0 < last g / hd g then Some (ln (last g / hd g)) else None)"

definition average_axis1 :: "matrix \<Rightarrow> real list" where
  "average_axis1 m = map (\<lambda>row. sum_list row / real (length row)) m"

definition average_axis0 :: "matrix \<Rightarrow> real list" where
  "average_axis0 m = map (\<lambda>c. c / real (length m)) (sum_axis0 m)"

definition times_span :: "real list option \<Rightarrow> real option \<Rightarrow> real list option" where
  "times_span a d =
     (case (a, d) of (Some v, Some x) \<Rightarrow> Some (map (\<lambda>y. y * x) v) | _ \<Rightarrow> None)"

text \<open>
  \<open>np.logspace(np.log10(bin[0]), np.log10(bin[-1]), 5)\<close>. For an edge that is not
  positive the grid has \<open>nan\<close> entries; as in \<open>prep_pdf_grid\<close> the model stops there.
\<close>

definition grid_of_bin :: "real list \<Rightarrow> py_error + real list" where
  "grid_of_bin b =
     (if b = [] then Inl IndexError
      else if \<not> (0 < hd b \<and> 0 < last b)
      then Inl (FloatingPointError ''invalid value encountered in log10'')
      else Inr (logspace (log 10 (hd b)) (log 10 (last b)) 5))"

definition chosen_grid :: "real list option \<Rightarrow> real list option \<Rightarrow> py_error + real list option" where
  "chosen_grid b g =
     (case b of
        None \<Rightarrow> Inr g
      | Some edges \<Rightarrow> (case grid_of_bin edges of Inl e \<Rightarrow> Inl e | Inr g1 \<Rightarrow> Inr (Some g1)))"

text \<open>
  \<open>periodradius(epos, Init, fpara, xbin, ybin, xgrid, ygrid)\<close> returns
  \<open>(pps, pdf, pdf_X, pdf_Y)\<close>. The caller's function \<open>epos.func\<close> is taken to return an
  array of the shape of its arguments; an array that is returned is \<open>None\<close> when its
  entries are \<open>inf\<close> or \<open>nan\<close>. On another grid, \<open>xgrid[-1]\<close> raises IndexError for an
  empty grid.
\<close>

definition periodradius ::
  "epos \<Rightarrow> bool \<Rightarrow> real list option \<Rightarrow> real list option \<Rightarrow> real list option
     \<Rightarrow> real list option \<Rightarrow> real list option
     \<Rightarrow> py_error + real \<times> matrix option \<times> real list option \<times> real list option" where
  "periodradius self Init fpara xbin ybin xgrid ygrid =
     (case resolve_pars self Init fpara of
        Inl e \<Rightarrow> Inl e
      | Inr (pps, fpar2d) \<Rightarrow>
          (let pdf0 = func self (X_in self) (Y_in self) fpar2d;
               pdf0_X = sum_axis1 pdf0;
               pdf0_Y = sum_axis0 pdf0
           in case chosen_grid xbin xgrid of
                Inl e \<Rightarrow> Inl e
              | Inr xg \<Rightarrow>
                  (case chosen_grid ybin ygrid of
                     Inl e \<Rightarrow> Inl e
                   | Inr yg \<Rightarrow>
                       if xg \<noteq> None \<or> yg \<noteq> None then
                         (let xs = (case xg of None \<Rightarrow> MC_xvar self | Some g \<Rightarrow> g);
                              ys = (case yg of None \<Rightarrow> MC_yvar self | Some g \<Rightarrow> g);
                              pdf = normalized2 pps (sum_all pdf0) (scale self)
                                      (func self (fst (meshgrid_ij xs ys))
                                                 (snd (meshgrid_ij xs ys)) fpar2d)
                          in if xs = [] \<or> ys = [] then Inl IndexError
                             else Inr (pps, pdf,
                                       times_span (map_option average_axis1 pdf) (ln_span ys),
                                       times_span (map_option average_axis0 pdf) (ln_span xs)))
                       else
                         Inr (pps,
                              normalized2 pps (sum_all pdf0) (scale self) pdf0,
                              normalized pps (sum_list pdf0_X) (scale_x self) pdf0_X,
                              normalized pps (sum_list pdf0_Y) (scale_in_y self) pdf0_Y))))"

text \<open>
  Runs of \<open>set_ranges\<close> on the example survey, after \<open>pps\<close> was added to the registry
  with the value \<open>v\<close>: the whole grid, with \<open>LogArea\<close> as given.
\<close>

definition example_ranged :: "real \<Rightarrow> bool \<Rightarrow> epos" where
  "example_ranged v LogArea =
     (case set_ranges
             (example_survey\<lparr>epos_fitpars :=
                add (epos_fitpars example_survey) ''pps'' v False NegInf PosInf None False\<rparr>)
             None None None None LogArea False of
        Inl e \<Rightarrow> new_epos
      | Inr s \<Rightarrow> s)"

section \<open>classes.py: set_population\<close>

text \<open>
  Indexing an array with a list of Python integers: an index from \<open>-n\<close> to \<open>n - 1\<close>
  is in range, a negative one counts from the end, any other raises IndexError. An
  assignment \<open>a[idx] = vals\<close> writes the values in turn.
\<close>

definition py_index :: "nat \<Rightarrow> int \<Rightarrow> nat option" where
  "py_index n i =
     (if 0 \<le> i \<and> i < int n then Some (nat i)
      else if - int n \<le> i \<and> i < 0 then Some (nat (int n + i))
      else None)"

definition idx_get :: "'a list \<Rightarrow> int list \<Rightarrow> py_error + 'a list" where
  "idx_get a idx =
     map_raise (\<lambda>i. case py_index (length a) i of
                       None \<Rightarrow> Inl IndexError
                     | Some k \<Rightarrow> Inr (a ! k)) idx"

fun idx_set :: "'a list \<Rightarrow> int list \<Rightarrow> 'a list \<Rightarrow> 'a list" where
  "idx_set a (i # idx) (v # vals) =
     idx_set (a[the (py_index (length a) i) := v]) idx vals"
| "idx_set a idx vals = a"

definition idx_assign :: "'a list \<Rightarrow> int list \<Rightarrow> 'a list \<Rightarrow> py_error + 'a list" where
  "idx_assign a idx vals =
     (if list_ex (\<lambda>i. py_index (length a) i = None) idx then Inl IndexError
      else Inr (idx_set a idx vals))"

text \<open>
  The period ratios: \<open>dP\<close> starts as ones, is 0 for the single planets, and for the
  second and later planets of a system \<open>dP[km] = P[km] / P[km - 1]\<close>. A quotient by a
  period 0 is not finite (\<open>None\<close>).
\<close>

fun dP_loop :: "real list \<Rightarrow> real option list \<Rightarrow> int list list \<Rightarrow> py_error + real option list" where
  "dP_loop P dP [] = Inr dP"
| "dP_loop P dP (km # kms) =
     (case idx_get P km of
        Inl e \<Rightarrow> Inl e
      | Inr num \<Rightarrow>
          (case idx_get P (map (\<lambda>i. i - 1) km) of
             Inl e \<Rightarrow> Inl e
           | Inr den \<Rightarrow>
               (case idx_assign dP km (map (\<lambda>(a, b). np_div a b) (zip num den)) of
                  Inl e \<Rightarrow> Inl e
                | Inr dP1 \<Rightarrow> dP_loop P dP1 kms)))"

definition neighbour_ratios ::
  "multi_module \<Rightarrow> int list \<Rightarrow> real list \<Rightarrow> py_error + real option list" where
  "neighbour_ratios M ids P =
     (case multi_nth_planet M ids P of
        (single, multi, ksys, multis) \<Rightarrow>
          (case idx_assign (map (\<lambda>p. Some 1) P) single (map (\<lambda>i. Some 0) single) of
             Inl e \<Rightarrow> Inl e
           | Inr dP \<Rightarrow> dP_loop P dP (tl multis)))"

text \<open>\<open>pfm[key] = pfm[key][order]\<close> for a key that may be absent.\<close>

definition reorder_opt :: "real list option \<Rightarrow> nat list \<Rightarrow> py_error + real list option" where
  "reorder_opt a order =
     (case a of
        None \<Rightarrow> Inr None
      | Some v \<Rightarrow> if list_ex (\<lambda>i. length v \<le> i) order then Inl IndexError
                  else Inr (Some (take_idx v order)))"

text \<open>
  \<open>set_population(name, sma, mass, inc, starID, tag)\<close>. The only comparison of lengths
  is \<open>len(sma) != len(mass)\<close>; its ValueError is caught by the bare \<open>except\<close> around it
  and raised again as the ValueError with the text \<open>have to be iterable\<close>. A negative
  semi-major axis gives the period \<open>nan\<close>; as in \<open>prep_pdf_grid\<close> the model stops there.
  With several planets for some star (\<open>np > ns\<close>) the arrays are sorted with
  \<open>np.lexsort((sma, ID))\<close>, which raises ValueError for keys of different lengths.
  \<open>np.min\<close> of an empty array raises ValueError.
\<close>

definition set_population ::
  "multi_module \<Rightarrow> epos \<Rightarrow> string \<Rightarrow> real list \<Rightarrow> real list \<Rightarrow> real list option
     \<Rightarrow> int list option \<Rightarrow> real list option \<Rightarrow> py_error + epos" where
  "set_population M self nm sma mass inc starID tag =
     (if pfm self \<noteq> None then Inl (ValueError ''expand: adding multiple populations?'')
      else if length sma \<noteq> length mass
      then Inl (ValueError ''sma and mass have to be iterable'')
      else if list_ex (\<lambda>a. a < 0) sma
      then Inl (FloatingPointError ''invalid value encountered in power'')
      else
        (let s1 = self\<lparr>Parametric := Some False, epos_fitpars := init_fitparameters,
                       Multi := (inc \<noteq> None)\<rparr>;
             ids = (case starID of None \<Rightarrow> map int [0..<length sma] | Some l \<Rightarrow> l);
             P = map (\<lambda>a. a powr 1.5 * 365.25) sma;
             d0 = \<lparr>pfm_name = nm, pfm_sma = sma, pfm_M = mass, pfm_ID = ids, pfm_tag = tag,
                   pfm_inc = inc, pfm_P = P, pfm_dP = None,
                   pfm_np = length ids, pfm_ns = length (remdups ids),
                   pfm_M_limits = None, pfm_P_limits = None\<rparr>;
             sorted_pfm =
               (if pfm_np d0 > pfm_ns d0 then
                  (if length sma \<noteq> length ids
                   then Inl (ValueError ''all keys need to be the same shape'')
                   else
                     (let order = lexsort sma ids in
                      case reorder_opt inc order of
                        Inl e \<Rightarrow> Inl e
                      | Inr inc1 \<Rightarrow>
                          (case reorder_opt tag order of
                             Inl e \<Rightarrow> Inl e
                           | Inr tag1 \<Rightarrow>
                               (case neighbour_ratios M (take_idx ids order) (take_idx P order) of
                                  Inl e \<Rightarrow> Inl e
                                | Inr dP \<Rightarrow>
                                    Inr (d0\<lparr>pfm_ID := take_idx ids order,
                                            pfm_sma := take_idx sma order,
                                            pfm_M := take_idx mass order,
                                            pfm_P := take_idx P order,
                                            pfm_inc := inc1, pfm_tag := tag1,
                                            pfm_dP := Some dP\<rparr>)))))
                else Inr d0)
         in case sorted_pfm of
              Inl e \<Rightarrow> Inl e
            | Inr d1 \<Rightarrow>
                if pfm_M d1 = []
                then Inl (ValueError ''zero-size array to reduction operation minimum'')
                else
                  (let mlim = (py_min (pfm_M d1), py_max (pfm_M d1));
                       plim = (py_min (pfm_P d1), py_max (pfm_P d1))
                   in Inr (s1\<lparr>pfm := Some (d1\<lparr>pfm_M_limits := Some mlim,
                                              pfm_P_limits := Some plim\<rparr>),
                               mod_xlim := wider_limits (fst plim) (snd plim),
                               mod_ylim := wider_limits (fst mlim) (snd mlim)\<rparr>))))"

text \<open>The attributes of the grid for the PDF, as one tuple.\<close>

definition pdf_fields ::
  "epos \<Rightarrow> matrix \<times> matrix \<times> real option \<times> real option \<times> real list
     \<times> (matrix \<Rightarrow> matrix \<Rightarrow> real list \<Rightarrow> matrix) \<times> fitparameters" where
  "pdf_fields s = (X_in s, Y_in s, scale_in_y s, scale_in s, in_yvar s, func s, epos_fitpars s)"


section \<open>Properties of fitparameters\<close>

lemma map_raise_ok:
  "list_all (\<lambda>x. \<exists>y. f x = Inr y) xs \<Longrightarrow> \<exists>ys. map_raise f xs = Inr ys \<and> length ys = length xs"
  by (induction xs) auto

lemma get_registered: "fitpars self k \<noteq> None \<Longrightarrow> \<exists>y. get self k Init = Inr y"
  by (auto simp: get_def split: option.splits)

lemma getfit_length:
  "registered self \<Longrightarrow> \<exists>vs. getfit self Init = Inr vs \<and> length vs = length (keysfit self)"
  unfolding getfit_def registered_def
  by (rule map_raise_ok) (auto simp: list_all_iff intro: get_registered)

lemma setfit_loop_distinct:
  "list_all (\<lambda>k. fitpars self k \<noteq> None) ks \<Longrightarrow> i + length ks \<le> length mclist \<Longrightarrow> distinct ks \<Longrightarrow>
   \<exists>r. setfit_loop self mclist i ks = Inr r
     \<and> keysall r = keysall self \<and> keysfit r = keysfit self \<and> keys2d r = keys2d self
     \<and> (\<forall>j<length ks. \<exists>fp. fitpars r (ks ! j) = Some fp \<and> fp_value_fit fp = Some (mclist ! (i + j)))
     \<and> (\<forall>k. k \<notin> set ks \<longrightarrow> fitpars r k = fitpars self k)"
proof (induction ks arbitrary: self i)
  case Nil
  then show ?case by simp
next
  case (Cons k ks)
  from Cons.prems obtain fp where fp: "fitpars self k = Some fp" by auto
  let ?s = "self\<lparr>fitpars := (fitpars self)(k \<mapsto> fp\<lparr>fp_value_fit := Some (mclist ! i)\<rparr>)\<rparr>"
  have 1: "list_all (\<lambda>k. fitpars ?s k \<noteq> None) ks"
    using Cons.prems(1) by (auto simp: list_all_iff)
  have 2: "Suc i + length ks \<le> length mclist" using Cons.prems(2) by simp
  have 3: "distinct ks" and nk: "k \<notin> set ks" using Cons.prems(3) by auto
  from Cons.IH[OF 1 2 3] obtain r where r:
    "setfit_loop ?s mclist (Suc i) ks = Inr r"
    "keysall r = keysall self" "keysfit r = keysfit self" "keys2d r = keys2d self"
    "\<forall>j<length ks. \<exists>fp. fitpars r (ks ! j) = Some fp \<and> fp_value_fit fp = Some (mclist ! (Suc i + j))"
    "\<forall>k'. k' \<notin> set ks \<longrightarrow> fitpars r k' = fitpars ?s k'"
    by auto
  have step: "setfit_loop self mclist i (k # ks) = Inr r"
    using fp r(1) Cons.prems(2) by simp
  have head: "\<exists>fp. fitpars r k = Some fp \<and> fp_value_fit fp = Some (mclist ! i)"
    using r(6) nk by simp
  have elems: "\<forall>j<length (k # ks). \<exists>fp. fitpars r ((k # ks) ! j) = Some fp \<and> fp_value_fit fp = Some (mclist ! (i + j))"
  proof (intro allI impI)
    fix j assume "j < length (k # ks)"
    then show "\<exists>fp. fitpars r ((k # ks) ! j) = Some fp \<and> fp_value_fit fp = Some (mclist ! (i + j))"
      using head r(5) by (cases j) auto
  qed
  have rest: "\<forall>k'. k' \<notin> set (k # ks) \<longrightarrow> fitpars r k' = fitpars self k'"
    using r(6) by auto
  show ?case using step r(2,3,4) elems rest by blast
qed

lemma get_fitted: "fitpars r k = Some fp \<Longrightarrow> fp_value_fit fp = Some x \<Longrightarrow> get r k False = Inr x"
  by (simp add: get_def)

text \<open>
  Claim C4. In a registry built by \<open>add\<close> whose free keys are pairwise distinct, and
  for a vector as long as the free-key list: \<open>getfit\<close> returns a vector as long as
  \<open>keysfit\<close>, and \<open>setfit\<close> succeeds, leaves \<open>keysfit\<close> as it was, and afterwards
  \<open>get(key, Init=False)\<close> returns for the \<open>i\<close>-th free key the \<open>i\<close>-th component.
\<close>

theorem setfit_get_roundtrip:
  assumes "registered self" and "distinct (keysfit self)"
    and "length mclist = length (keysfit self)"
  shows "(\<exists>vs. getfit self Init = Inr vs \<and> length vs = length (keysfit self))
       \<and> (\<exists>r. setfit self mclist = Inr r \<and> keysfit r = keysfit self
              \<and> (\<forall>i<length (keysfit self). get r (keysfit self ! i) False = Inr (mclist ! i)))"
proof
  show "\<exists>vs. getfit self Init = Inr vs \<and> length vs = length (keysfit self)"
    using assms(1) by (rule getfit_length)
next
  have "list_all (\<lambda>k. fitpars self k \<noteq> None) (keysfit self)"
    using assms(1) by (simp add: registered_def)
  moreover have "0 + length (keysfit self) \<le> length mclist" using assms(3) by simp
  ultimately obtain r where r: "setfit_loop self mclist 0 (keysfit self) = Inr r"
    "keysfit r = keysfit self"
    "\<forall>j<length (keysfit self). \<exists>fp. fitpars r (keysfit self ! j) = Some fp \<and> fp_value_fit fp = Some (mclist ! (0 + j))"
    using setfit_loop_distinct[OF _ _ assms(2), of self 0 mclist] by blast
  have "\<forall>i<length (keysfit self). get r (keysfit self ! i) False = Inr (mclist ! i)"
    using r(3) by (auto intro: get_fitted)
  then show "\<exists>r. setfit self mclist = Inr r \<and> keysfit r = keysfit self
              \<and> (\<forall>i<length (keysfit self). get r (keysfit self ! i) False = Inr (mclist ! i))"
    using r(1,2) by (auto simp: setfit_def)
qed

lemma reg_two_simps:
  "keysfit reg_two = [''pps'', ''P break'']" "keysall reg_two = [''pps'', ''P break'']"
  "keys2d reg_two = [''P break'']"
  by (simp_all add: reg_two_def add_def init_fitparameters_def)

lemma reg_two_registered: "registered reg_two"
  by (simp add: registered_def reg_two_simps) (simp add: reg_two_def add_def init_fitparameters_def)

text \<open>
  The registry \<open>reg_two\<close> and the vector \<open>[3, 4]\<close> meet the hypotheses of C4.
\<close>

theorem setfit_get_roundtrip_witness:
  "registered reg_two \<and> distinct (keysfit reg_two) \<and> length [3, 4::real] = length (keysfit reg_two)
   \<and> (\<exists>r. setfit reg_two [3, 4] = Inr r \<and> get r ''pps'' False = Inr 3 \<and> get r ''P break'' False = Inr 4)"
proof -
  have d: "distinct (keysfit reg_two)" by (simp add: reg_two_simps)
  have l: "length [3, 4::real] = length (keysfit reg_two)" by (simp add: reg_two_simps)
  from setfit_get_roundtrip[OF reg_two_registered d l, of True]
  obtain r where r: "setfit reg_two [3, 4] = Inr r"
    "\<forall>i<length (keysfit reg_two). get r (keysfit reg_two ! i) False = Inr ([3, 4] ! i)"
    by blast
  from r(2)[rule_format, of 0] r(2)[rule_format, of 1]
  have "get r ''pps'' False = Inr 3" "get r ''P break'' False = Inr 4"
    by (simp_all add: reg_two_simps)
  with r(1) reg_two_registered d l show ?thesis by blast
qed

lemma checkbounds_loop_bounded:
  "list_all (\<lambda>k. case fitpars self k of None \<Rightarrow> False
                    | Some fp \<Rightarrow> fp_min fp \<noteq> None \<and> fp_max fp \<noteq> None) ks \<Longrightarrow>
   i + length ks \<le> length parlist \<Longrightarrow>
   checkbounds_loop self parlist i ks =
     (if \<exists>j<length ks. outside_bounds self (ks ! j) (parlist ! (i + j))
      then Inl (ValueError ''out of bounds'') else Inr self)"
proof (induction ks arbitrary: i)
  case Nil
  then show ?case by simp
next
  case (Cons k ks)
  from Cons.prems(1) obtain fp mn mx where fp:
    "fitpars self k = Some fp" "fp_min fp = Some mn" "fp_max fp = Some mx"
    by (auto split: option.splits)
  have out: "outside_bounds self k x = (less_bound x mn \<or> greater_bound x mx)" for x
    using fp by (simp add: outside_bounds_def)
  have ex: "(\<exists>j<length (k # ks). outside_bounds self ((k # ks) ! j) (parlist ! (i + j)))
        = (outside_bounds self k (parlist ! i)
           \<or> (\<exists>j<length ks. outside_bounds self (ks ! j) (parlist ! (Suc i + j))))"
    by (auto simp: less_Suc_eq_0_disj)
  have IH: "checkbounds_loop self parlist (Suc i) ks =
     (if \<exists>j<length ks. outside_bounds self (ks ! j) (parlist ! (Suc i + j))
      then Inl (ValueError ''out of bounds'') else Inr self)"
    using Cons.prems by (intro Cons.IH) auto
  have len: "\<not> length parlist \<le> i" using Cons.prems(2) by simp
  show ?case
    unfolding ex using len fp IH by (simp add: out)
qed

text \<open>
  Claim C5, amended. When every free key has an entry that carries \<open>min\<close> and
  \<open>max\<close>, and the vector is as long as the free-key list, \<open>checkbounds\<close> raises the
  out-of-bounds ValueError exactly when some component is strictly below \<open>min\<close> or
  strictly above \<open>max\<close> of its key (a component equal to a bound is not outside), and
  otherwise it returns with the registry unchanged.
\<close>

theorem checkbounds_iff_outside:
  assumes "free_bounded self" and "length parlist = length (keysfit self)"
  shows "checkbounds self parlist =
     (if \<exists>i<length parlist. outside_bounds self (keysfit self ! i) (parlist ! i)
      then Inl (ValueError ''out of bounds'') else Inr self)"
  using checkbounds_loop_bounded[of self "keysfit self" 0 parlist] assms
  by (simp add: checkbounds_def free_bounded_def)

lemma reg_two_bounded: "free_bounded reg_two"
  by (simp add: free_bounded_def reg_two_simps) (simp add: reg_two_def add_def init_fitparameters_def)

lemma reg_two_outside:
  "outside_bounds reg_two ''pps'' x = (x < 0)"
  "outside_bounds reg_two ''P break'' x = (x < 1 \<or> x > 100)"
  by (simp_all add: outside_bounds_def reg_two_def add_def init_fitparameters_def)

text \<open>
  On \<open>reg_two\<close> (bounds \<open>[0, inf]\<close> and \<open>[1, 100]\<close>): the vector \<open>[0, 100]\<close> lies
  on two bounds and passes, \<open>[0, 100.5]\<close> and \<open>[-1, 50]\<close> are refused.
\<close>

theorem checkbounds_iff_outside_witness:
  "free_bounded reg_two \<and> length [0, 100::real] = length (keysfit reg_two)
   \<and> checkbounds reg_two [0, 100] = Inr reg_two
   \<and> checkbounds reg_two [0, 100.5] = Inl (ValueError ''out of bounds'')
   \<and> checkbounds reg_two [-1, 50] = Inl (ValueError ''out of bounds'')"
proof -
  have l: "length [a, b::real] = length (keysfit reg_two)" for a b
    by (simp add: reg_two_simps)
  have ex: "(\<exists>i<length [a, b]. outside_bounds reg_two (keysfit reg_two ! i) ([a, b] ! i))
      = (a < 0 \<or> b < 1 \<or> b > 100)" for a b :: real
    by (auto simp: reg_two_simps reg_two_outside less_Suc_eq_0_disj)
  show ?thesis
    using checkbounds_iff_outside[OF reg_two_bounded l, of 0 100]
      checkbounds_iff_outside[OF reg_two_bounded l, of 0 "100.5"]
      checkbounds_iff_outside[OF reg_two_bounded l, of "-1" 50]
      reg_two_bounded l[of 0 100]
    unfolding ex by simp
qed

text \<open>
  Claim C5 as stated, for every registry, fails. In \<open>reg_refixed\<close> the free key \<open>a\<close>
  was added again with \<open>fixed=True\<close>: it is still in \<open>keysfit\<close>, but its new entry has
  no \<open>min\<close>. For the vector \<open>[1, 5]\<close> the component \<open>5\<close> is strictly above the
  maximum \<open>2\<close> of \<open>b\<close>, yet the loop stops at \<open>a\<close> with \<open>KeyError('min')\<close>, which
  is not the out-of-bounds failure.
\<close>

theorem checkbounds_refixed_counterexample:
  "length [1, 5::real] = length (keysfit reg_refixed)
   \<and> outside_bounds reg_refixed (keysfit reg_refixed ! 1) ([1, 5] ! 1)
   \<and> checkbounds reg_refixed [1, 5] = Inl (KeyError ''min'')
   \<and> checkbounds reg_refixed [1, 5] \<noteq> Inl (ValueError ''out of bounds'')"
  by (simp add: reg_refixed_def add_def Let_def init_fitparameters_def checkbounds_def
      outside_bounds_def)

text \<open>
  Claim C9. \<open>add\<close> has no failing branch (it is a total function of the registry).
  Called for a key that is already registered, it replaces the stored entry by the one a
  first registration would store, appends the key once more to \<open>keysall\<close> (to
  \<open>keysfit\<close> unless \<open>fixed\<close>, to \<open>keys2d\<close> if \<open>is2D\<close>), so \<open>keysall\<close> has a
  duplicate, and the vector \<open>getfit\<close> returns is one longer for a free key.
\<close>

theorem add_registered_again:
  assumes "registered self" and "k \<in> set (keysall self)"
  shows "fitpars (add self k v fixed mn mx dx is2D) k
           = fitpars (add init_fitparameters k v fixed mn mx dx is2D) k
       \<and> fitpars (add self k v fixed mn mx dx is2D) k \<noteq> None
       \<and> keysall (add self k v fixed mn mx dx is2D) = keysall self @ [k]
       \<and> keysfit (add self k v fixed mn mx dx is2D)
           = (if fixed then keysfit self else keysfit self @ [k])
       \<and> keys2d (add self k v fixed mn mx dx is2D)
           = (if is2D then keys2d self @ [k] else keys2d self)
       \<and> \<not> distinct (keysall (add self k v fixed mn mx dx is2D))
       \<and> registered (add self k v fixed mn mx dx is2D)
       \<and> (\<exists>vs. getfit (add self k v fixed mn mx dx is2D) Init = Inr vs
              \<and> length vs = (if fixed then length (keysfit self) else Suc (length (keysfit self))))"
proof -
  let ?r = "add self k v fixed mn mx dx is2D"
  have reg: "registered ?r"
    using assms(1) by (auto simp: registered_def add_def Let_def list_all_iff)
  from getfit_length[OF reg, of Init] obtain vs where
    vs: "getfit ?r Init = Inr vs" "length vs = length (keysfit ?r)" by blast
  have kf: "keysfit ?r = (if fixed then keysfit self else keysfit self @ [k])"
    by (simp add: add_def Let_def)
  have "length vs = (if fixed then length (keysfit self) else Suc (length (keysfit self)))"
    using vs(2) kf by simp
  with vs(1) have g: "\<exists>vs. getfit ?r Init = Inr vs
      \<and> length vs = (if fixed then length (keysfit self) else Suc (length (keysfit self)))"
    by blast
  have rest: "fitpars ?r k = fitpars (add init_fitparameters k v fixed mn mx dx is2D) k"
    "fitpars ?r k \<noteq> None" "keysall ?r = keysall self @ [k]"
    "keys2d ?r = (if is2D then keys2d self @ [k] else keys2d self)"
    by (simp_all add: add_def Let_def)
  have nd: "\<not> distinct (keysall ?r)" using assms(2) by (simp add: rest(3))
  show ?thesis using rest kf nd reg g by blast
qed

text \<open>
  Adding \<open>pps\<close> to \<open>reg_two\<close> a second time.
\<close>

theorem add_registered_again_witness:
  "registered reg_two \<and> ''pps'' \<in> set (keysall reg_two)
   \<and> keysfit (add reg_two ''pps'' 7 False NegInf PosInf None False) = [''pps'', ''P break'', ''pps'']
   \<and> (\<exists>vs. getfit (add reg_two ''pps'' 7 False NegInf PosInf None False) True = Inr vs \<and> length vs = 3)
   \<and> get (add reg_two ''pps'' 7 False NegInf PosInf None False) ''pps'' True = Inr 7"
proof -
  have m: "''pps'' \<in> set (keysall reg_two)" by (simp add: reg_two_simps)
  have g: "get (add reg_two ''pps'' 7 False NegInf PosInf None False) ''pps'' True = Inr 7"
    by (simp add: get_def add_def)
  show ?thesis
    using add_registered_again[OF reg_two_registered m, of 7 False NegInf PosInf None False True]
      reg_two_registered m g
    by (simp add: reg_two_simps eval_nat_numeral)
qed

lemma registered_init: "registered init_fitparameters"
  by (simp add: registered_def init_fitparameters_def)

lemma registered_add: "registered self \<Longrightarrow> registered (add self k v fixed mn mx dx is2D)"
  by (auto simp: registered_def add_def Let_def list_all_iff)

lemma registered_default: "registered self \<Longrightarrow> registered (default_fp self k v)"
  by (simp add: default_fp_def registered_add)

lemma registered_set: "registered self \<Longrightarrow> set_fp self k v = Inr r \<Longrightarrow> registered r"
  by (auto simp: registered_def set_fp_def list_all_iff split: option.splits)

lemma setfit_loop_keeps:
  "setfit_loop self mclist i ks = Inr r \<Longrightarrow>
   keysall r = keysall self \<and> keysfit r = keysfit self \<and> keys2d r = keys2d self
   \<and> (\<forall>k. fitpars self k \<noteq> None \<longrightarrow> fitpars r k \<noteq> None)"
proof (induction ks arbitrary: self i)
  case Nil
  then show ?case by simp
next
  case (Cons k ks)
  from Cons.prems obtain fp where fp: "fitpars self k = Some fp"
    and run: "setfit_loop
      (self\<lparr>fitpars := (fitpars self)(k \<mapsto> fp\<lparr>fp_value_fit := Some (mclist ! i)\<rparr>)\<rparr>)
      mclist (Suc i) ks = Inr r"
    by (auto split: if_splits option.splits)
  from Cons.IH[OF run] show ?case by auto
qed

lemma registered_setfit: "registered self \<Longrightarrow> setfit self mclist = Inr r \<Longrightarrow> registered r"
  unfolding setfit_def using setfit_loop_keeps[of self mclist 0 "keysfit self" r]
  by (auto simp: registered_def list_all_iff)

section \<open>Properties of set_bins\<close>

lemma bin_edges_Bins2:
  "ps \<noteq> [] \<Longrightarrow> bin_edges (Bins2 ps) None = Inr (bin_rows ps)"
  by (simp add: bin_edges_def)

lemma length_np_tile: "a \<noteq> [] \<Longrightarrow> length (np_tile a m) = m * length a"
  by (simp add: np_tile_def length_concat sum_list_replicate)

text \<open>With \<open>Grid=True\<close> there are \<open>nx * ny\<close> rows.\<close>

lemma set_bins_grid_count:
  assumes "xs \<noteq> []" and "ys \<noteq> []"
  shows "\<exists>s. set_bins self (Bins2 xs) (Bins2 ys) None None True = Inr s
     \<and> length (bin_pairs s) = length xs * length ys"
  using assms
  by (simp add: set_bins_def bin_edges_Bins2 bin_pairs_def length_np_tile bin_rows_def
      split: option.split)

text \<open>
  With \<open>Grid=False\<close> the bins are stored as they come when there are as many on both
  axes, and the call raises ValueError otherwise.
\<close>

lemma set_bins_paired:
  assumes "xs \<noteq> []" and "ys \<noteq> []"
  shows "set_bins self (Bins2 xs) (Bins2 ys) None None False =
     (if length xs = length ys
      then Inr (self\<lparr>occurrence := Some ((case occurrence self of
                    None \<Rightarrow> \<lparr>occ_xzoom = None, occ_yzoom = None, occ_bin = None\<rparr>
                  | Some d \<Rightarrow> d)\<lparr>occ_bin := Some (bin_rows xs, bin_rows ys)\<rparr>)\<rparr>)
      else Inl (ValueError ''unequal amount of bins. Use Grid=True?''))"
  using assms
  by (cases xs; cases ys)
     (auto simp: set_bins_def bin_edges_Bins2 np_shape_def bin_rows_def Let_def split: option.split)

text \<open>
  Claim C6 at \<open>xbins=[[1,10],[10,100]]\<close>, \<open>ybins=[[1,2],[2,4]]\<close>, \<open>Grid=True\<close>. Both
  lists of bins are tiled block by block, so row \<open>k\<close> pairs the \<open>x\<close> bin \<open>k mod nx\<close> with
  the \<open>y\<close> bin \<open>k mod ny\<close>. There are four rows, but they are two pairs, each twice: the
  pairs \<open>([1,10],[2,4])\<close> and \<open>([10,100],[1,2])\<close> of the Cartesian tiling do not occur.
\<close>

theorem set_bins_grid_repeats_pairs:
  "\<exists>s. set_bins self (Bins2 [(1, 10), (10, 100)]) (Bins2 [(1, 2), (2, 4)]) None None True = Inr s
     \<and> bin_pairs s = [([1, 10], [1, 2]), ([10, 100], [2, 4]), ([1, 10], [1, 2]), ([10, 100], [2, 4])]
     \<and> length (bin_pairs s) = 4
     \<and> ([1, 10], [2, 4]) \<notin> set (bin_pairs s)
     \<and> ([10, 100], [1, 2]) \<notin> set (bin_pairs s)
     \<and> \<not> distinct (bin_pairs s)"
  by (simp add: set_bins_def bin_edges_def bin_rows_def np_tile_def bin_pairs_def
      eval_nat_numeral split: option.split)

section \<open>Properties of set_observation\<close>

lemma lexsort_mset: "mset (lexsort xvar starID) = mset [0..<length starID]"
  by (simp add: lexsort_def)

lemma lexsort_set: "set (lexsort xvar starID) = {0..<length starID}"
  by (simp add: lexsort_def)

lemma zip_take_idx:
  "zip (take_idx a p) (take_idx b p) = map (\<lambda>i. (a ! i, b ! i)) p"
  unfolding take_idx_def by (induction p) auto

lemma lexsort_sorted:
  "sorted (zip (take_idx starID (lexsort xvar starID)) (take_idx xvar (lexsort xvar starID)))"
proof -
  have "zip (take_idx starID (lexsort xvar starID)) (take_idx xvar (lexsort xvar starID))
      = map (\<lambda>i. (starID ! i, xvar ! i)) (lexsort xvar starID)"
    by (rule zip_take_idx)
  then show ?thesis by (simp add: lexsort_def)
qed

lemma sorted_pairs_explicit:
  fixes ps :: "(int \<times> real) list"
  assumes "sorted ps"
  shows "sorted_wrt (\<lambda>(i, a) (j, b). i < j \<or> (i = j \<and> a \<le> b)) ps"
proof -
  have "sorted_wrt (\<le>) ps" using assms by simp
  then show ?thesis
    by (rule sorted_wrt_mono_rel[rotated]) (auto simp: less_eq_prod_def)
qed

lemma triples_of_indices:
  assumes "length xvar = n" "length yvar = n" "length starID = n"
  shows "zip xvar (zip yvar starID) = map (\<lambda>i. (xvar ! i, yvar ! i, starID ! i)) [0..<n]"
  using assms by (auto intro!: nth_equalityI)

lemma triples_permuted:
  assumes "length xvar = n" "length yvar = n" "length starID = n" "mset p = mset [0..<n]"
  shows "mset (zip (take_idx xvar p) (zip (take_idx yvar p) (take_idx starID p)))
       = mset (zip xvar (zip yvar starID))"
proof -
  have "zip (take_idx xvar p) (zip (take_idx yvar p) (take_idx starID p))
      = map (\<lambda>i. (xvar ! i, yvar ! i, starID ! i)) p"
    unfolding take_idx_def by (induction p) auto
  then have "mset (zip (take_idx xvar p) (zip (take_idx yvar p) (take_idx starID p)))
      = image_mset (\<lambda>i. (xvar ! i, yvar ! i, starID ! i)) (mset p)"
    by simp
  also have "\<dots> = mset (map (\<lambda>i. (xvar ! i, yvar ! i, starID ! i)) [0..<n])"
    using assms(4) by simp
  finally show ?thesis using triples_of_indices[OF assms(1-3)] by simp
qed

text \<open>
  Claim C10. For arrays of one length, in any order, the first lines of
  \<open>set_observation\<close> store \<open>obs_xvar\<close>, \<open>obs_yvar\<close> and \<open>obs_starID\<close> as one
  permutation \<open>p\<close> of the three inputs; the stored pairs (star identifier, period) ascend,
  by the identifier and for one identifier by the period; and the stored triples are the
  given triples, as a multiset. When the arrays are not empty the call returns with these
  arrays and \<open>Observation\<close> set; for empty arrays it raises ValueError at \<open>min\<close>, after
  the arrays were stored.
\<close>

theorem set_observation_sorts:
  assumes "length xvar = length starID" and "length yvar = length starID"
  shows "\<exists>s1. store_observation self xvar yvar starID n = Inr s1
     \<and> (\<exists>p. mset p = mset [0..<length starID]
            \<and> obs_xvar s1 = take_idx xvar p \<and> obs_yvar s1 = take_idx yvar p
            \<and> obs_starID s1 = take_idx starID p)
     \<and> sorted_wrt (\<lambda>(i, a) (j, b). i < j \<or> (i = j \<and> a \<le> b)) (zip (obs_starID s1) (obs_xvar s1))
     \<and> mset (zip (obs_xvar s1) (zip (obs_yvar s1) (obs_starID s1)))
         = mset (zip xvar (zip yvar starID))
     \<and> (if xvar = [] then set_observation M self xvar yvar starID n
                           = Inl (ValueError ''min() arg is an empty sequence'')
         else \<exists>s. set_observation M self xvar yvar starID n = Inr s
                \<and> obs_xvar s = obs_xvar s1 \<and> obs_yvar s = obs_yvar s1
                \<and> obs_starID s = obs_starID s1 \<and> Observation s)"
proof -
  let ?p = "lexsort xvar starID"
  let ?s1 = "self\<lparr>obs_xvar := take_idx xvar ?p, obs_yvar := take_idx yvar ?p,
                   obs_starID := take_idx starID ?p, nstars := n\<rparr>"
  have inrange: "\<not> list_ex (\<lambda>i. length yvar \<le> i) ?p"
    using assms(2) by (auto simp: list_ex_iff lexsort_set)
  have st: "store_observation self xvar yvar starID n = Inr ?s1"
    using assms(1) inrange by (simp add: store_observation_def Let_def)
  have perm: "\<exists>p. mset p = mset [0..<length starID]
            \<and> obs_xvar ?s1 = take_idx xvar p \<and> obs_yvar ?s1 = take_idx yvar p
            \<and> obs_starID ?s1 = take_idx starID p"
    using lexsort_mset[of xvar starID] by (intro exI[of _ ?p]) simp
  have srt: "sorted_wrt (\<lambda>(i, a) (j, b). i < j \<or> (i = j \<and> a \<le> b))
      (zip (obs_starID ?s1) (obs_xvar ?s1))"
    using sorted_pairs_explicit[OF lexsort_sorted[of starID xvar]] by simp
  have ms: "mset (zip (obs_xvar ?s1) (zip (obs_yvar ?s1) (obs_starID ?s1)))
         = mset (zip xvar (zip yvar starID))"
    using triples_permuted[OF assms(1) assms(2) refl lexsort_mset] by simp
  have len: "length ?p = length starID"
    using lexsort_mset[of xvar starID] by (metis mset_eq_length length_upt minus_nat.diff_0)
  have empty: "(take_idx xvar ?p = []) = (xvar = [])"
    using len assms(1) by (auto simp: take_idx_def)
  have fin: "if xvar = [] then set_observation M self xvar yvar starID n
                           = Inl (ValueError ''min() arg is an empty sequence'')
         else \<exists>s. set_observation M self xvar yvar starID n = Inr s
                \<and> obs_xvar s = obs_xvar ?s1 \<and> obs_yvar s = obs_yvar ?s1
                \<and> obs_starID s = obs_starID ?s1 \<and> Observation s"
  proof (cases "xvar = []")
    case True
    with empty have "obs_xvar ?s1 = []" by simp
    with True show ?thesis
      unfolding set_observation_def st by (simp add: take_idx_def)
  next
    case False
    with empty have "obs_xvar ?s1 \<noteq> []" by simp
    with False show ?thesis
      unfolding set_observation_def st by (simp add: take_idx_def Let_def)
  qed
  show ?thesis using st perm srt ms fin by blast
qed

lemma lexsort_example: "lexsort [20, 10, 5] [2, 1, 1] = [2, 1, 0]"
  by (simp add: lexsort_def upt_rec less_eq_prod_def)

text \<open>
  Three planets of the stars 2, 1, 1 with periods 20, 10, 5: the stored order is star 1
  with periods 5 and 10, then star 2.
\<close>

theorem set_observation_sorts_witness:
  "length [20, 10, 5::real] = length [2, 1, 1::int] \<and> length [1, 2, 3::real] = length [2, 1, 1::int]
   \<and> (\<exists>s. set_observation multi_none new_epos [20, 10, 5] [1, 2, 3] [2, 1, 1] 1000 = Inr s
          \<and> obs_starID s = [1, 1, 2] \<and> obs_xvar s = [5, 10, 20] \<and> obs_yvar s = [3, 2, 1])"
proof -
  have st: "store_observation new_epos [20, 10, 5] [1, 2, 3] [2, 1, 1] 1000 =
      Inr (new_epos\<lparr>obs_xvar := [5, 10, 20], obs_yvar := [3, 2, 1], obs_starID := [1, 1, 2],
                    nstars := 1000\<rparr>)"
    by (simp add: store_observation_def lexsort_example take_idx_def)
  from set_observation_sorts[of "[20, 10, 5]" "[2, 1, 1]" "[1, 2, 3]" new_epos 1000 multi_none]
  obtain s where "set_observation multi_none new_epos [20, 10, 5] [1, 2, 3] [2, 1, 1] 1000 = Inr s"
    "obs_starID s = [1, 1, 2]" "obs_xvar s = [5, 10, 20]" "obs_yvar s = [3, 2, 1]"
    unfolding st by auto
  then show ?thesis by auto
qed

section \<open>Properties of set_ranges\<close>

text \<open>\<open>set_survey\<close> stores the axes and their limits.\<close>

lemma set_survey_surveyed:
  assumes "set_survey C self xvar yvar eff rstar mstar = Inr s"
  shows "surveyed s" "eff_xvar s = xvar" "eff_yvar s = yvar" "eff_2D s = eff"
    "DetectionEfficiency s"
  using assms unfolding set_survey_def surveyed_def
  by (auto simp: Let_def split: if_splits sum.splits)

lemma clip_range_not_beyond: "not_beyond (clip_range r outer) outer"
  by (auto simp: not_beyond_def clip_range_def split: option.splits)

lemma range_bounds_fields:
  "eff_xlim (range_bounds self xt yt xz yz) = eff_xlim self"
  "eff_ylim (range_bounds self xt yt xz yz) = eff_ylim self"
  "eff_xvar (range_bounds self xt yt xz yz) = eff_xvar self"
  "eff_yvar (range_bounds self xt yt xz yz) = eff_yvar self"
  "xtrim (range_bounds self xt yt xz yz) = clip_range xt (eff_xlim self)"
  "ytrim (range_bounds self xt yt xz yz) = clip_range yt (eff_ylim self)"
  "xzoom (range_bounds self xt yt xz yz) = clip_range xz (clip_range xt (eff_xlim self))"
  "yzoom (range_bounds self xt yt xz yz) = clip_range yz (clip_range yt (eff_ylim self))"
  by (simp_all add: range_bounds_def Let_def)

lemma prep_grid_regions:
  "prep_grid self LogArea = Inr s \<Longrightarrow> region_fields s = region_fields self"
  unfolding prep_grid_def region_fields_def
  by (auto simp: Let_def split: sum.splits prod.splits if_splits)

lemma prep_pdf_grid_regions:
  "prep_pdf_grid self LogArea = Inr s \<Longrightarrow> region_fields s = region_fields self"
  unfolding prep_pdf_grid_def region_fields_def
  by (auto simp: Let_def split: option.splits if_splits)

lemma plot_ticks_regions: "region_fields (plot_ticks self) = region_fields self"
  by (simp add: plot_ticks_def region_fields_def)

lemma occurrence_zoom_regions:
  "occurrence_zoom self = Inr s \<Longrightarrow> region_fields s = region_fields self"
  unfolding occurrence_zoom_def region_fields_def
  by (auto simp: Let_def split: if_splits)

lemma set_ranges_stages:
  assumes "set_ranges self xt yt xz yz LogArea Occ = Inr s"
  obtains s1 s2 where "prep_grid (range_bounds self xt yt xz yz) LogArea = Inr s1"
    "prep_pdf_grid s1 LogArea = Inr s2"
    "if Occ then occurrence_zoom (plot_ticks s2) = Inr s else s = plot_ticks s2"
  using assms unfolding set_ranges_def
  by (auto split: if_splits sum.splits)

lemma set_ranges_regions:
  assumes "set_ranges self xt yt xz yz LogArea Occ = Inr s"
  shows "region_fields s = region_fields (range_bounds self xt yt xz yz)"
proof -
  from assms obtain s1 s2 where st:
    "prep_grid (range_bounds self xt yt xz yz) LogArea = Inr s1"
    "prep_pdf_grid s1 LogArea = Inr s2"
    "if Occ then occurrence_zoom (plot_ticks s2) = Inr s else s = plot_ticks s2"
    by (rule set_ranges_stages)
  have "region_fields s = region_fields (plot_ticks s2)"
    using st(3) by (cases Occ) (auto dest: occurrence_zoom_regions)
  then show ?thesis
    using prep_grid_regions[OF st(1)] prep_pdf_grid_regions[OF st(2)] plot_ticks_regions[of s2]
    by simp
qed

lemma lexsort_two: "lexsort [10, 5] [1, 1] = [1, 0]"
  by (simp add: lexsort_def upt_rec less_eq_prod_def)

lemma example_observation:
  "set_observation multi_none new_epos [10, 5] [1, 2] [1, 1] 1000 =
     Inr (new_epos\<lparr>obs_xvar := [5, 10], obs_yvar := [2, 1], obs_starID := [1, 1], nstars := 1000,
                   obs_xlim := wider_limits 5 10, obs_ylim := wider_limits 1 2,
                   Observation := True,
                   epos_multi := \<lparr>multi_bin = [], multi_count = [], multi_pl_cnt = [],
                                  multi_Pratio = [], multi_Pinner = [], multi_cdf_obs = []\<rparr>\<rparr>)"
  by (simp add: set_observation_def store_observation_def lexsort_two take_idx_def
      py_min_def py_max_def multi_none_def Let_def)

lemma example_survey_fields:
  "Observation example_survey" "DetectionEfficiency example_survey"
  "\<not> Range_set example_survey" "\<not> MassRadius example_survey" "PDF example_survey = Some True"
  "eff_xvar example_survey = [1, 10, 100]" "eff_yvar example_survey = [1, 2, 4]"
  "eff_xlim example_survey = (1, 100)" "eff_ylim example_survey = (1, 4)"
  "eff_2D example_survey = [[1, 1, 1], [1, 1, 1], [1, 1, 1]]"
  "func example_survey = example_func" "epos_fitpars example_survey = init_fitparameters"
  "\<not> RV example_survey" "occurrence example_survey = None"
proof -
  have "cgs_G cgs_values * 1 * cgs_Msun cgs_values \<noteq> 0"
    "\<not> 4 * pi ^ 2 / (cgs_G cgs_values * 1 * cgs_Msun cgs_values) < 0"
    "\<not> cgs_day cgs_values < 0" "cgs_day cgs_values \<noteq> 0"
    by (simp_all add: cgs_values_def divide_less_0_iff)
  then obtain f where f: "fgeo_prefac cgs_values 1 1 = Inr f"
    by (simp add: fgeo_prefac_def)
  show "Observation example_survey" "DetectionEfficiency example_survey"
    "\<not> Range_set example_survey" "\<not> MassRadius example_survey" "PDF example_survey = Some True"
    "eff_xvar example_survey = [1, 10, 100]" "eff_yvar example_survey = [1, 2, 4]"
    "eff_xlim example_survey = (1, 100)" "eff_ylim example_survey = (1, 4)"
    "eff_2D example_survey = [[1, 1, 1], [1, 1, 1], [1, 1, 1]]"
    "func example_survey = example_func" "epos_fitpars example_survey = init_fitparameters"
    "\<not> RV example_survey" "occurrence example_survey = None"
    unfolding example_survey_def example_observation
    by (simp_all add: set_survey_def has_shape_def set_parametric_def py_min_def py_max_def
        new_epos_def init_epos_def f Let_def)
qed

text \<open>
  On an ascending array the binary search keeps the entries below \<open>v\<close> to the left of
  \<open>lo\<close> and the entries not below \<open>v\<close> from \<open>hi\<close> on.
\<close>

lemma bisect_left_sorted:
  assumes "sorted a" and "lo \<le> hi" and "hi \<le> length a"
    and "\<forall>i<lo. a ! i < v" and "\<forall>i. hi \<le> i \<and> i < length a \<longrightarrow> v \<le> a ! i"
  shows "lo \<le> bisect_left a v lo hi \<and> bisect_left a v lo hi \<le> hi
       \<and> (\<forall>i<bisect_left a v lo hi. a ! i < v)
       \<and> (\<forall>i. bisect_left a v lo hi \<le> i \<and> i < length a \<longrightarrow> v \<le> a ! i)"
  using assms
proof (induction a v lo hi rule: bisect_left.induct)
  case (1 a v lo hi)
  let ?mid = "lo + (hi - lo) div 2"
  show ?case
  proof (cases "lo < hi")
    case False
    then have "bisect_left a v lo hi = lo" by (simp add: bisect_left.simps[of a v lo hi])
    with False "1.prems" show ?thesis by simp
  next
    case True
    then have mid: "lo \<le> ?mid" "?mid < hi" by simp_all
    then have midn: "?mid < length a" using "1.prems"(3) by simp
    show ?thesis
    proof (cases "a ! ?mid < v")
      case below: True
      have left: "\<forall>i<?mid + 1. a ! i < v"
      proof (intro allI impI)
        fix i assume "i < ?mid + 1"
        then have "a ! i \<le> a ! ?mid"
          using "1.prems"(1) midn by (intro sorted_nth_mono) simp_all
        with below show "a ! i < v" by simp
      qed
      have "?mid + 1 \<le> bisect_left a v (?mid + 1) hi \<and> bisect_left a v (?mid + 1) hi \<le> hi
         \<and> (\<forall>i<bisect_left a v (?mid + 1) hi. a ! i < v)
         \<and> (\<forall>i. bisect_left a v (?mid + 1) hi \<le> i \<and> i < length a \<longrightarrow> v \<le> a ! i)"
        using True below mid "1.prems"(1,3,5) left by (intro "1.IH"(1)) simp_all
      moreover have "bisect_left a v lo hi = bisect_left a v (?mid + 1) hi"
        using True below by (simp add: bisect_left.simps[of a v lo hi])
      ultimately show ?thesis using mid by simp
    next
      case notbelow: False
      have right: "\<forall>i. ?mid \<le> i \<and> i < length a \<longrightarrow> v \<le> a ! i"
      proof (intro allI impI)
        fix i assume "?mid \<le> i \<and> i < length a"
        then have "a ! ?mid \<le> a ! i"
          using "1.prems"(1) by (intro sorted_nth_mono) simp_all
        with notbelow show "v \<le> a ! i" by simp
      qed
      have "lo \<le> bisect_left a v lo ?mid \<and> bisect_left a v lo ?mid \<le> ?mid
         \<and> (\<forall>i<bisect_left a v lo ?mid. a ! i < v)
         \<and> (\<forall>i. bisect_left a v lo ?mid \<le> i \<and> i < length a \<longrightarrow> v \<le> a ! i)"
        using True notbelow mid midn "1.prems"(1,4) right by (intro "1.IH"(2)) simp_all
      moreover have "bisect_left a v lo hi = bisect_left a v lo ?mid"
        using True notbelow by (simp add: bisect_left.simps[of a v lo hi])
      ultimately show ?thesis using mid by simp
    qed
  qed
qed

lemma searchsorted_sorted:
  assumes "sorted a"
  shows "searchsorted_left a v \<le> length a"
    and "\<forall>i<searchsorted_left a v. a ! i < v"
    and "\<forall>i. searchsorted_left a v \<le> i \<and> i < length a \<longrightarrow> v \<le> a ! i"
  using bisect_left_sorted[OF assms, of 0 "length a" v] by (simp_all add: searchsorted_left_def)

lemma searchsorted_below: "sorted a \<Longrightarrow> i < searchsorted_left a v \<Longrightarrow> a ! i < v"
  using searchsorted_sorted(2) by blast

lemma searchsorted_le_length: "sorted a \<Longrightarrow> searchsorted_left a v \<le> length a"
  by (rule searchsorted_sorted(1))

lemma searchsorted_at:
  "sorted a \<Longrightarrow> searchsorted_left a v < length a \<Longrightarrow> v \<le> a ! searchsorted_left a v"
  using searchsorted_sorted(3) by blast

lemma searchsorted_pos:
  "sorted a \<Longrightarrow> a \<noteq> [] \<Longrightarrow> hd a < v \<Longrightarrow> 0 < searchsorted_left a v"
  using searchsorted_at[of a v] by (cases "searchsorted_left a v") (auto simp: hd_conv_nth)

lemma searchsorted_upper:
  "sorted a \<Longrightarrow> j < length a \<Longrightarrow> v \<le> a ! j \<Longrightarrow> searchsorted_left a v \<le> j"
  using searchsorted_below[of a j v] by (cases "j < searchsorted_left a v") auto

lemma trimarray_brackets:
  assumes srt: "sorted_wrt (<) a" and lo: "hd a \<le> fst t" and hi: "snd t \<le> last a"
    and tr: "trimarray a t = Inr (imin, imax)"
  shows "0 \<le> imin \<and> imin < int (length a) \<and> 0 < imax \<and> imax \<le> int (length a)
       \<and> a ! nat imin \<le> fst t \<and> snd t \<le> a ! nat (imax - 1)"
proof -
  from tr have n2: "2 \<le> length a" by (auto simp: trimarray_def split: if_splits)
  then have ne: "a \<noteq> []" by auto
  have hd0: "hd a = a ! 0" using ne by (simp add: hd_conv_nth)
  have lastn: "last a = a ! (length a - 1)" using ne by (simp add: last_conv_nth)
  have a01: "a ! 0 < a ! 1" using srt n2 by (simp add: sorted_wrt_iff_nth_less)
  have asc: "sorted a" using srt by (rule strict_sorted_imp_sorted)
  let ?k = "searchsorted_left a (fst t)"
  let ?m = "searchsorted_left a (snd t)"
  have imin: "imin = (if fst t < a ! 1 then 0 else int ?k - 1)"
    and imax: "imax = (if snd t > a ! (length a - 2) then int (length a) else int ?m + 1)"
    using tr n2 by (auto simp: trimarray_def Let_def split: if_splits)
  have low: "0 \<le> imin \<and> imin < int (length a) \<and> a ! nat imin \<le> fst t"
  proof (cases "fst t < a ! 1")
    case True
    then show ?thesis using imin lo hd0 n2 by auto
  next
    case False
    then have "hd a < fst t" using a01 hd0 by simp
    then have kpos: "0 < ?k" using asc ne by (intro searchsorted_pos)
    have "a ! (?k - 1) < fst t" using kpos asc by (intro searchsorted_below) simp_all
    moreover have "?k \<le> length a" using asc by (rule searchsorted_le_length)
    moreover have "nat (int ?k - 1) = ?k - 1" by simp
    ultimately show ?thesis using False imin kpos by simp
  qed
  have up: "0 < imax \<and> imax \<le> int (length a) \<and> snd t \<le> a ! nat (imax - 1)"
  proof (cases "snd t > a ! (length a - 2)")
    case True
    then show ?thesis using imax hi lastn n2 ne by (auto simp: nat_diff_distrib')
  next
    case False
    then have "?m \<le> length a - 2" using n2 asc by (intro searchsorted_upper) auto
    then have mlt: "?m < length a" using n2 by simp
    then have "snd t \<le> a ! ?m" using asc by (intro searchsorted_at)
    then show ?thesis using False imax mlt by simp
  qed
  show ?thesis using low up by simp
qed

lemma py_slice_ends:
  assumes "0 \<le> i" "i < int (length a)" "0 < j" "j \<le> int (length a)" "py_slice a i j \<noteq> []"
  shows "hd (py_slice a i j) = a ! nat i \<and> last (py_slice a i j) = a ! nat (j - 1)"
proof -
  have eq: "py_slice a i j = take (nat j - nat i) (drop (nat i) a)"
    using assms(1-4) by (simp add: py_slice_def Let_def min_def)
  with assms(5) have lt: "nat i < nat j" by (cases "nat i < nat j") auto
  have len: "length (py_slice a i j) = nat j - nat i"
    using assms(1-4) by (simp add: eq)
  have il: "nat i < length a" using assms(1,2) by linarith
  have h: "hd (py_slice a i j) = a ! nat i"
    using lt il by (simp add: eq hd_drop_conv_nth)
  have "last (py_slice a i j) = py_slice a i j ! (nat j - nat i - 1)"
    using assms(5) len by (simp add: last_conv_nth)
  also have "\<dots> = a ! (nat i + (nat j - nat i - 1))"
    using lt assms(1-4) unfolding eq by (subst nth_take) (auto simp: nat_le_iff)
  also have "nat i + (nat j - nat i - 1) = nat (j - 1)"
    using lt assms(1,3) by linarith
  finally show ?thesis using h by simp
qed

lemma fold_min_least: "\<forall>x\<in>set xs. m \<le> x \<Longrightarrow> fold min xs (m::real) = m"
  by (induction xs) (auto simp: min_def)

lemma fold_max_last: "sorted_wrt (<) (m # xs) \<Longrightarrow> fold max xs (m::real) = last (m # xs)"
proof (induction xs arbitrary: m)
  case Nil
  then show ?case by simp
next
  case (Cons x xs)
  then have "max x m = x" by auto
  moreover have "sorted_wrt (<) (x # xs)" using Cons.prems by simp
  ultimately show ?case using Cons.IH[of x] by simp
qed

lemma py_min_sorted: "sorted_wrt (<) a \<Longrightarrow> a \<noteq> [] \<Longrightarrow> py_min a = hd a"
  unfolding py_min_def by (cases a) (auto intro!: fold_min_least simp: less_imp_le)

lemma py_max_sorted: "sorted_wrt (<) a \<Longrightarrow> a \<noteq> [] \<Longrightarrow> py_max a = last a"
  unfolding py_max_def using fold_max_last by (cases a) auto

lemma prep_grid_slices:
  assumes "prep_grid self LogArea = Inr s"
  obtains ixmin ixmax iymin iymax where
    "trimarray (eff_xvar self) (xtrim self) = Inr (ixmin, ixmax)"
    "trimarray (eff_yvar self) (ytrim self) = Inr (iymin, iymax)"
    "MC_xvar s = py_slice (eff_xvar self) ixmin ixmax"
    "MC_yvar s = py_slice (eff_yvar self) iymin iymax"
    "MC_xvar s \<noteq> []" "MC_yvar s \<noteq> []"
  using assms unfolding prep_grid_def
  by (auto simp: Let_def split: sum.splits prod.splits if_splits)

lemma prep_pdf_grid_grid:
  "prep_pdf_grid self LogArea = Inr s \<Longrightarrow> grid_fields s = grid_fields self"
  unfolding prep_pdf_grid_def grid_fields_def
  by (auto simp: Let_def split: option.splits if_splits)

lemma plot_ticks_grid: "grid_fields (plot_ticks self) = grid_fields self"
  by (simp add: plot_ticks_def grid_fields_def)

lemma occurrence_zoom_grid:
  "occurrence_zoom self = Inr s \<Longrightarrow> grid_fields s = grid_fields self"
  unfolding occurrence_zoom_def grid_fields_def
  by (auto simp: Let_def split: if_splits)

lemma set_ranges_grid:
  assumes "set_ranges self xt yt xz yz LogArea Occ = Inr s"
  obtains s1 where "prep_grid (range_bounds self xt yt xz yz) LogArea = Inr s1"
    "grid_fields s = grid_fields s1"
proof -
  from assms obtain s1 s2 where st:
    "prep_grid (range_bounds self xt yt xz yz) LogArea = Inr s1"
    "prep_pdf_grid s1 LogArea = Inr s2"
    "if Occ then occurrence_zoom (plot_ticks s2) = Inr s else s = plot_ticks s2"
    by (rule set_ranges_stages)
  have "grid_fields s = grid_fields (plot_ticks s2)"
    using st(3) by (cases Occ) (auto dest: occurrence_zoom_grid)
  then have "grid_fields s = grid_fields s1"
    using prep_pdf_grid_grid[OF st(2)] plot_ticks_grid[of s2] by simp
  with st(1) show ?thesis by (rule that)
qed

lemma axis_brackets:
  assumes srt: "sorted_wrt (<) a" and lo: "py_min a \<le> fst t" and hi: "snd t \<le> py_max a"
    and tr: "trimarray a t = Inr (imin, imax)" and ne: "py_slice a imin imax \<noteq> []"
  shows "hd (py_slice a imin imax) \<le> fst t \<and> snd t \<le> last (py_slice a imin imax)"
proof -
  from tr have "a \<noteq> []" by (auto simp: trimarray_def split: if_splits)
  then have "hd a \<le> fst t" "snd t \<le> last a"
    using lo hi srt by (simp_all add: py_min_sorted py_max_sorted)
  from trimarray_brackets[OF srt this tr]
  have b: "0 \<le> imin" "imin < int (length a)" "0 < imax" "imax \<le> int (length a)"
    "a ! nat imin \<le> fst t" "snd t \<le> a ! nat (imax - 1)" by simp_all
  from py_slice_ends[OF b(1-4) ne] b(5,6) show ?thesis by simp
qed

text \<open>
  Claim C3. Let both axes of the survey grid ascend strictly and let the limits be those
  \<open>set_survey\<close> stored. Whatever regions are asked for, after a call of \<open>set_ranges\<close>
  that returns the working axes are not empty and bracket the stored trim region:
  \<open>MC_xvar[0] <= xtrim[0]\<close> and \<open>MC_xvar[-1] >= xtrim[1]\<close>, and likewise in \<open>y\<close>.
  The stored trim region never reaches beyond the extent of the axis, so the claim's
  condition that a sample lies beyond each trim edge is not needed.
\<close>

theorem set_ranges_brackets_trim:
  assumes "surveyed self"
    and "sorted_wrt (<) (eff_xvar self)" and "sorted_wrt (<) (eff_yvar self)"
    and "set_ranges self xt yt xz yz LogArea Occ = Inr s"
  shows "MC_xvar s \<noteq> [] \<and> hd (MC_xvar s) \<le> fst (xtrim s) \<and> snd (xtrim s) \<le> last (MC_xvar s)
       \<and> MC_yvar s \<noteq> [] \<and> hd (MC_yvar s) \<le> fst (ytrim s) \<and> snd (ytrim s) \<le> last (MC_yvar s)"
proof -
  let ?b = "range_bounds self xt yt xz yz"
  from assms(4) obtain s1 where s1: "prep_grid ?b LogArea = Inr s1"
    "grid_fields s = grid_fields s1" by (rule set_ranges_grid)
  from s1(1) obtain ixmin ixmax iymin iymax where g:
    "trimarray (eff_xvar ?b) (xtrim ?b) = Inr (ixmin, ixmax)"
    "trimarray (eff_yvar ?b) (ytrim ?b) = Inr (iymin, iymax)"
    "MC_xvar s1 = py_slice (eff_xvar ?b) ixmin ixmax"
    "MC_yvar s1 = py_slice (eff_yvar ?b) iymin iymax"
    "MC_xvar s1 \<noteq> []" "MC_yvar s1 \<noteq> []"
    by (rule prep_grid_slices)
  have mc: "MC_xvar s = MC_xvar s1" "MC_yvar s = MC_yvar s1"
    using s1(2) by (simp_all add: grid_fields_def)
  have tr: "xtrim s = xtrim ?b" "ytrim s = ytrim ?b"
    using set_ranges_regions[OF assms(4)] by (simp_all add: region_fields_def)
  have cx: "not_beyond (xtrim ?b) (py_min (eff_xvar self), py_max (eff_xvar self))"
    and cy: "not_beyond (ytrim ?b) (py_min (eff_yvar self), py_max (eff_yvar self))"
    using assms(1) clip_range_not_beyond[of xt "eff_xlim self"]
      clip_range_not_beyond[of yt "eff_ylim self"]
    by (simp_all add: surveyed_def range_bounds_fields)
  have x: "hd (MC_xvar s1) \<le> fst (xtrim ?b) \<and> snd (xtrim ?b) \<le> last (MC_xvar s1)"
    unfolding g(3) using cx g(1) g(5)[unfolded g(3)] assms(2)
    by (intro axis_brackets) (simp_all add: not_beyond_def range_bounds_fields)
  have y: "hd (MC_yvar s1) \<le> fst (ytrim ?b) \<and> snd (ytrim ?b) \<le> last (MC_yvar s1)"
    unfolding g(4) using cy g(2) g(6)[unfolded g(4)] assms(3)
    by (intro axis_brackets) (simp_all add: not_beyond_def range_bounds_fields)
  show ?thesis using x y g(5,6) by (simp add: mc tr)
qed

lemma clip_range_inside: "bounds_inside (clip_range r outer) outer = reaches r outer"
  by (auto simp: bounds_inside_def reaches_def clip_range_def split: option.splits)

text \<open>
  Claim C7, amended. Let \<open>b\<close> be the object after the first part of \<open>set_ranges\<close>, which
  stores the trim and zoom regions and cannot fail; the later parts do not assign them, so
  every call that returns has the regions of \<open>b\<close>. Whatever regions are asked for, the
  limits of the survey grid are as before, and no stored lower bound is below and no stored
  upper bound above the bound of the enclosing region (the trim region for zoom, the limits
  of the survey grid for trim). Both stored bounds of a region lie inside the enclosing
  region exactly when the enclosing region has its bounds in order and the request, if one
  is given, starts not above it and ends not below it.
\<close>

theorem set_ranges_stored_regions:
  assumes "b = range_bounds self xt yt xz yz"
  shows "eff_xlim b = eff_xlim self \<and> eff_ylim b = eff_ylim self
       \<and> not_beyond (xtrim b) (eff_xlim b) \<and> not_beyond (ytrim b) (eff_ylim b)
       \<and> not_beyond (xzoom b) (xtrim b) \<and> not_beyond (yzoom b) (ytrim b)
       \<and> bounds_inside (xtrim b) (eff_xlim b) = reaches xt (eff_xlim b)
       \<and> bounds_inside (ytrim b) (eff_ylim b) = reaches yt (eff_ylim b)
       \<and> bounds_inside (xzoom b) (xtrim b) = reaches xz (xtrim b)
       \<and> bounds_inside (yzoom b) (ytrim b) = reaches yz (ytrim b)
       \<and> (\<forall>s. set_ranges self xt yt xz yz LogArea Occ = Inr s \<longrightarrow>
              eff_xlim s = eff_xlim b \<and> eff_ylim s = eff_ylim b
              \<and> xtrim s = xtrim b \<and> ytrim s = ytrim b
              \<and> xzoom s = xzoom b \<and> yzoom s = yzoom b)"
proof -
  have f: "eff_xlim b = eff_xlim self" "eff_ylim b = eff_ylim self"
    "xtrim b = clip_range xt (eff_xlim b)" "ytrim b = clip_range yt (eff_ylim b)"
    "xzoom b = clip_range xz (xtrim b)" "yzoom b = clip_range yz (ytrim b)"
    by (simp_all add: assms range_bounds_fields)
  have nb: "not_beyond (xtrim b) (eff_xlim b)" "not_beyond (ytrim b) (eff_ylim b)"
    "not_beyond (xzoom b) (xtrim b)" "not_beyond (yzoom b) (ytrim b)"
    using clip_range_not_beyond[of xt "eff_xlim b"] clip_range_not_beyond[of yt "eff_ylim b"]
      clip_range_not_beyond[of xz "xtrim b"] clip_range_not_beyond[of yz "ytrim b"]
    by (simp_all add: f(3-6)[symmetric])
  have ins: "bounds_inside (xtrim b) (eff_xlim b) = reaches xt (eff_xlim b)"
    "bounds_inside (ytrim b) (eff_ylim b) = reaches yt (eff_ylim b)"
    "bounds_inside (xzoom b) (xtrim b) = reaches xz (xtrim b)"
    "bounds_inside (yzoom b) (ytrim b) = reaches yz (ytrim b)"
    using clip_range_inside[of xt "eff_xlim b"] clip_range_inside[of yt "eff_ylim b"]
      clip_range_inside[of xz "xtrim b"] clip_range_inside[of yz "ytrim b"]
    by (simp_all add: f(3-6)[symmetric])
  have ret: "\<forall>s. set_ranges self xt yt xz yz LogArea Occ = Inr s \<longrightarrow>
              eff_xlim s = eff_xlim b \<and> eff_ylim s = eff_ylim b
              \<and> xtrim s = xtrim b \<and> ytrim s = ytrim b
              \<and> xzoom s = xzoom b \<and> yzoom s = yzoom b"
  proof (intro allI impI)
    fix s assume "set_ranges self xt yt xz yz LogArea Occ = Inr s"
    from set_ranges_regions[OF this]
    show "eff_xlim s = eff_xlim b \<and> eff_ylim s = eff_ylim b
              \<and> xtrim s = xtrim b \<and> ytrim s = ytrim b
              \<and> xzoom s = xzoom b \<and> yzoom s = yzoom b"
      by (simp add: region_fields_def assms)
  qed
  show ?thesis using f(1,2) nb ins ret by blast
qed

lemma example_surveyed: "surveyed example_survey"
  by (simp add: surveyed_def example_survey_fields py_min_def py_max_def)

lemma example_trim:
  "trimarray [1, 10, 100] (12, 50) = Inr (1, 3)"
  "trimarray [1, 10, 100] (1000, 100) = Inr (2, 3)"
  "trimarray [1, 10, 100] (1, 100) = Inr (0, 3)"
  "trimarray [1, 2, 4] (1, 4) = Inr (0, 3)"
  by (simp_all add: trimarray_def searchsorted_left_def bisect_left.simps)

lemma example_ranges:
  "\<exists>s. set_ranges example_survey (Some (12, 50)) None None None False False = Inr s
     \<and> MC_xvar s = [10, 100] \<and> MC_yvar s = [1, 2, 4] \<and> xtrim s = (12, 50) \<and> ytrim s = (1, 4)"
  by (simp add: set_ranges_def example_survey_fields range_bounds_def prep_grid_def
      clip_range_def example_trim py_slice_def prep_pdf_grid_def plot_ticks_def Let_def)

lemma example_ranges_zoomed:
  "\<exists>s. set_ranges example_survey (Some (12, 50)) None (Some (20, 300)) None False False = Inr s"
  by (simp add: set_ranges_def example_survey_fields range_bounds_def prep_grid_def
      clip_range_def example_trim py_slice_def prep_pdf_grid_def plot_ticks_def Let_def)

text \<open>
  On the example survey (periods 1, 10, 100) the trim region \<open>[12, 50]\<close> gives the working
  axis \<open>[10, 100]\<close>.
\<close>

theorem set_ranges_brackets_trim_witness:
  "surveyed example_survey \<and> sorted_wrt (<) (eff_xvar example_survey)
   \<and> sorted_wrt (<) (eff_yvar example_survey)
   \<and> (\<exists>s. set_ranges example_survey (Some (12, 50)) None None None False False = Inr s
          \<and> MC_xvar s = [10, 100] \<and> xtrim s = (12, 50)
          \<and> hd (MC_xvar s) \<le> fst (xtrim s) \<and> snd (xtrim s) \<le> last (MC_xvar s))"
proof -
  have sx: "sorted_wrt (<) (eff_xvar example_survey)"
    and sy: "sorted_wrt (<) (eff_yvar example_survey)"
    by (simp_all add: example_survey_fields)
  from example_ranges obtain s where s:
    "set_ranges example_survey (Some (12, 50)) None None None False False = Inr s"
    "MC_xvar s = [10, 100]" "xtrim s = (12, 50)" by blast
  from set_ranges_brackets_trim[OF example_surveyed sx sy s(1)]
  have "hd (MC_xvar s) \<le> fst (xtrim s) \<and> snd (xtrim s) \<le> last (MC_xvar s)" by simp
  with s example_surveyed sx sy show ?thesis by blast
qed

text \<open>
  On the example survey the request \<open>xtrim=[12, 50]\<close>, \<open>xzoom=[20, 300]\<close> reaches the
  enclosing regions: the call returns with the zoom region \<open>[20, 50]\<close> inside the trim
  region \<open>[12, 50]\<close> inside the limits \<open>[1, 100]\<close>.
\<close>

theorem set_ranges_stored_regions_witness:
  "reaches (Some (12, 50)) (1, 100) \<and> reaches (Some (20, 300)) (12, 50)
   \<and> (\<exists>s. set_ranges example_survey (Some (12, 50)) None (Some (20, 300)) None False False = Inr s
          \<and> eff_xlim s = (1, 100) \<and> xtrim s = (12, 50) \<and> xzoom s = (20, 50)
          \<and> bounds_inside (xtrim s) (eff_xlim s) \<and> bounds_inside (xzoom s) (xtrim s))"
proof -
  let ?b = "range_bounds example_survey (Some (12, 50)) None (Some (20, 300)) None"
  have r: "reaches (Some (12, 50)) (1, 100)" "reaches (Some (20, 300)) (12, 50)"
    by (simp_all add: reaches_def)
  have b: "eff_xlim ?b = (1, 100)" "xtrim ?b = (12, 50)" "xzoom ?b = (20, 50)"
    by (simp_all add: range_bounds_fields example_survey_fields clip_range_def)
  obtain s where s:
    "set_ranges example_survey (Some (12, 50)) None (Some (20, 300)) None False False = Inr s"
    using example_ranges_zoomed by blast
  note t = set_ranges_stored_regions[OF refl, of example_survey "Some (12, 50)" None
      "Some (20, 300)" None False False]
  from t s have eq: "eff_xlim s = (1, 100)" "xtrim s = (12, 50)" "xzoom s = (20, 50)"
    using b by auto
  from t r b have "bounds_inside (xtrim ?b) (eff_xlim ?b)" "bounds_inside (xzoom ?b) (xtrim ?b)"
    by auto
  then have "bounds_inside (xtrim s) (eff_xlim s)" "bounds_inside (xzoom s) (xtrim s)"
    by (simp_all add: b eq)
  with r s eq show ?thesis by blast
qed

text \<open>
  Claim C7 as stated fails for a request wholly beside the enclosing region. With
  \<open>xzoom=[200, 300]\<close> the call returns with the trim region \<open>[1, 100]\<close> and the zoom
  region \<open>[200, 100]\<close>, whose lower bound is above the trim region; with
  \<open>xtrim=[1000, 2000]\<close> it returns with the trim region \<open>[1000, 100]\<close>, whose lower bound
  is above the limits \<open>[1, 100]\<close> of the survey grid.
\<close>

theorem set_ranges_outside_counterexample:
  "set_ranges example_survey None None (Some (200, 300)) None False False
     = Inr example_zoom_outside
   \<and> xtrim example_zoom_outside = (1, 100) \<and> xzoom example_zoom_outside = (200, 100)
   \<and> Zoom example_zoom_outside
   \<and> \<not> fst (xzoom example_zoom_outside) \<le> snd (xtrim example_zoom_outside)
   \<and> \<not> bounds_inside (xzoom example_zoom_outside) (xtrim example_zoom_outside)
   \<and> set_ranges example_survey (Some (1000, 2000)) None None None False False
       = Inr example_trim_outside
   \<and> eff_xlim example_trim_outside = (1, 100) \<and> xtrim example_trim_outside = (1000, 100)
   \<and> \<not> fst (xtrim example_trim_outside) \<le> snd (eff_xlim example_trim_outside)
   \<and> \<not> bounds_inside (xtrim example_trim_outside) (eff_xlim example_trim_outside)"
proof -
  have z: "set_ranges example_survey None None (Some (200, 300)) None False False
      = Inr example_zoom_outside"
    by (simp add: example_zoom_outside_def set_ranges_def example_survey_fields
        range_bounds_def prep_grid_def clip_range_def example_trim py_slice_def
        prep_pdf_grid_def Let_def)
  have t: "set_ranges example_survey (Some (1000, 2000)) None None None False False
      = Inr example_trim_outside"
    by (simp add: example_trim_outside_def set_ranges_def example_survey_fields
        range_bounds_def prep_grid_def clip_range_def example_trim py_slice_def
        prep_pdf_grid_def Let_def)
  have zf: "xtrim example_zoom_outside = (1, 100)" "xzoom example_zoom_outside = (200, 100)"
    "Zoom example_zoom_outside"
    using set_ranges_regions[OF z]
    by (simp_all add: region_fields_def range_bounds_fields example_survey_fields clip_range_def)
       (simp add: example_zoom_outside_def set_ranges_def example_survey_fields
        range_bounds_def prep_grid_def clip_range_def example_trim py_slice_def
        prep_pdf_grid_def plot_ticks_def Let_def)
  have tf: "eff_xlim example_trim_outside = (1, 100)" "xtrim example_trim_outside = (1000, 100)"
    using set_ranges_regions[OF t]
    by (simp_all add: region_fields_def range_bounds_fields example_survey_fields clip_range_def)
  show ?thesis using z t by (simp add: zf tf bounds_inside_def)
qed

section \<open>Properties of periodradius\<close>

lemma sum_all_scaled: "sum_all (map (map (\<lambda>v. v * k)) m) = sum_all m * k"
  unfolding sum_all_def
  by (induction m) (simp_all add: sum_list_mult_const distrib_right)

text \<open>
  Claim C1, amended. Let the parameters resolve to \<open>pps\<close> and \<open>fpar2d\<close>, let the
  function have a total on the input grid that is not 0, let \<open>epos.scale\<close> be finite and
  not 0, and let \<open>pps\<close> be not 0. Then \<open>periodradius\<close> without another grid returns a
  finite joint density \<open>pdf\<close>, and the sum over all cells of \<open>pdf / (pps * scale)\<close> is 1.
\<close>

theorem periodradius_default_sums_to_one:
  assumes res: "resolve_pars self Init fpara = Inr (pps, fpar2d)"
    and tot: "sum_all (func self (X_in self) (Y_in self) fpar2d) \<noteq> 0"
    and sc: "scale self = Some c" and c0: "c \<noteq> 0" and p0: "pps \<noteq> 0"
  shows "\<exists>pdf pdf_X pdf_Y.
           periodradius self Init fpara None None None None = Inr (pps, Some pdf, pdf_X, pdf_Y)
         \<and> sum_all (map (map (\<lambda>v. v / (pps * c))) pdf) = 1"
proof -
  let ?m = "func self (X_in self) (Y_in self) fpar2d"
  let ?pdf = "map (map (\<lambda>v. pps * v / sum_all ?m * c)) ?m"
  have n2: "normalized2 pps (sum_all ?m) (scale self) ?m = Some ?pdf"
    using tot sc by (simp add: normalized2_def)
  have run: "\<exists>pdf_X pdf_Y. periodradius self Init fpara None None None None
      = Inr (pps, Some ?pdf, pdf_X, pdf_Y)"
    using res n2 by (simp add: periodradius_def chosen_grid_def Let_def)
  have "map (map (\<lambda>v. v / (pps * c))) ?pdf = map (map (\<lambda>v. v * (1 / sum_all ?m))) ?m"
    using c0 p0 by (simp add: comp_def)
  then have "sum_all (map (map (\<lambda>v. v / (pps * c))) ?pdf) = sum_all ?m * (1 / sum_all ?m)"
    by (simp only: sum_all_scaled)
  also have "\<dots> = 1" using tot by simp
  finally show ?thesis using run by blast
qed

lemma example_ranged_run:
  "set_ranges
     (example_survey\<lparr>epos_fitpars :=
        add (epos_fitpars example_survey) ''pps'' v False NegInf PosInf None False\<rparr>)
     None None None None LogArea False = Inr (example_ranged v LogArea)"
  by (simp add: example_ranged_def set_ranges_def example_survey_fields range_bounds_def
      prep_grid_def clip_range_def example_trim py_slice_def prep_pdf_grid_def Let_def)

lemma example_ranged_fields:
  "MC_xvar (example_ranged v L) = [1, 10, 100]" "MC_yvar (example_ranged v L) = [1, 2, 4]"
  "X_in (example_ranged v L) = [[1, 1, 1], [10, 10, 10], [100, 100, 100]]"
  "Y_in (example_ranged v L) = [[1, 2, 4], [1, 2, 4], [1, 2, 4]]"
  "func (example_ranged v L) = example_func"
  "scale_x (example_ranged v L) = log_scale (if L then log 10 else ln) [1, 10, 100]"
  "scale_in_y (example_ranged v L) = log_scale (if L then log 10 else ln) [1, 2, 4]"
  "scale (example_ranged v L) = times_opt (log_scale (if L then log 10 else ln) [1, 10, 100])
                                          (log_scale (if L then log 10 else ln) [1, 2, 4])"
  "epos_fitpars (example_ranged v L) = add init_fitparameters ''pps'' v False NegInf PosInf None False"
  by (simp_all add: example_ranged_def set_ranges_def example_survey_fields range_bounds_def
      prep_grid_def clip_range_def example_trim py_slice_def prep_pdf_grid_def Let_def
      plot_ticks_def meshgrid_ij_def)

lemma example_scales:
  "log_scale ln [1, 10, 100] = Some (3 / ln 100)"
  "log_scale ln [1, 2, 4] = Some (3 / ln 4)"
  "log_scale (log 10) [1, 10, 100] = Some (3 / 2)"
  "log_scale (log 10) [1, 2, 4] = Some (3 / log 10 4)"
proof -
  have "log 10 100 = log 10 (10 ^ 2)" by simp
  also have "\<dots> = 2" by (subst log_nat_power) simp_all
  finally have l100: "log 10 100 = 2" .
  have l4: "log 10 4 \<noteq> 0" by (simp add: log_def)
  show "log_scale ln [1, 10, 100] = Some (3 / ln 100)"
    "log_scale ln [1, 2, 4] = Some (3 / ln 4)"
    "log_scale (log 10) [1, 10, 100] = Some (3 / 2)"
    "log_scale (log 10) [1, 2, 4] = Some (3 / log 10 4)"
    using l100 l4 by (simp_all add: log_scale_def)
qed

lemma example_resolve:
  "resolve_pars (example_ranged v L) Init None = Inr (v, [])"
  by (simp add: resolve_pars_def example_ranged_fields get_def get2d_def add_def
      init_fitparameters_def)

lemma example_pdf0:
  "func (example_ranged v L) (X_in (example_ranged v L)) (Y_in (example_ranged v L)) pars
     = [[1, 1, 1], [1, 1, 1], [1, 1, 1]]"
  by (simp add: example_ranged_fields example_func_def)

lemma example_default_run:
  "periodradius (example_ranged v L) Init None None None None None
     = Inr (v, normalized2 v 9 (scale (example_ranged v L)) [[1, 1, 1], [1, 1, 1], [1, 1, 1]],
            normalized v 9 (scale_x (example_ranged v L)) [3, 3, 3],
            normalized v 9 (scale_in_y (example_ranged v L)) [3, 3, 3])"
  unfolding periodradius_def example_resolve example_pdf0
  by (simp add: chosen_grid_def sum_all_def sum_axis1_def sum_axis0_def upt_rec Let_def)

text \<open>
  Claim C1 as stated fails for \<open>pps = 0\<close>: on the example grid, with a function whose
  total is 9, the joint density is 0 in every cell and so is \<open>pps * scale\<close>; the sum of
  the quotients is not 1 (in floats each quotient is \<open>nan\<close>, in the reals \<open>0 / 0 = 0\<close>).
\<close>

theorem periodradius_zero_pps_counterexample:
  "periodradius (example_ranged 0 False) False None None None None None
     = Inr (0, Some [[0, 0, 0], [0, 0, 0], [0, 0, 0]], Some [0, 0, 0], Some [0, 0, 0])
   \<and> sum_all (func (example_ranged 0 False) (X_in (example_ranged 0 False))
               (Y_in (example_ranged 0 False)) []) = 9
   \<and> scale (example_ranged 0 False) = Some (3 / ln 100 * (3 / ln 4))
   \<and> sum_all (map (map (\<lambda>v. v / (0 * (3 / ln 100 * (3 / ln 4)))))
               [[0, 0, 0], [0, 0, 0], [0, 0, 0]]) \<noteq> 1"
  unfolding example_default_run example_pdf0
  by (simp add: sum_all_def normalized2_def normalized_def
      example_ranged_fields example_scales times_opt_def)

text \<open>
  The example grid with \<open>pps = 2\<close> meets the hypotheses of C1.
\<close>

theorem periodradius_default_sums_to_one_witness:
  "resolve_pars (example_ranged 2 False) False None = Inr (2, [])
   \<and> sum_all (func (example_ranged 2 False) (X_in (example_ranged 2 False))
               (Y_in (example_ranged 2 False)) []) \<noteq> 0
   \<and> scale (example_ranged 2 False) = Some (3 / ln 100 * (3 / ln 4))
   \<and> 3 / ln 100 * (3 / ln 4) \<noteq> (0::real) \<and> (2::real) \<noteq> 0
   \<and> (\<exists>pdf pdf_X pdf_Y.
         periodradius (example_ranged 2 False) False None None None None None
           = Inr (2, Some pdf, pdf_X, pdf_Y)
       \<and> sum_all (map (map (\<lambda>v. v / (2 * (3 / ln 100 * (3 / ln 4))))) pdf) = 1)"
proof -
  have res: "resolve_pars (example_ranged 2 False) False None = Inr (2, [])"
    by (rule example_resolve)
  have tot: "sum_all (func (example_ranged 2 False) (X_in (example_ranged 2 False))
               (Y_in (example_ranged 2 False)) []) \<noteq> 0"
    unfolding example_pdf0 by (simp add: sum_all_def)
  have sc: "scale (example_ranged 2 False) = Some (3 / ln 100 * (3 / ln 4))"
    by (simp add: example_ranged_fields example_scales times_opt_def)
  have c0: "3 / ln 100 * (3 / ln 4) \<noteq> (0::real)" by simp
  have p0: "(2::real) \<noteq> 0" by simp
  from periodradius_default_sums_to_one[OF res tot sc c0 p0]
  show ?thesis using res tot sc c0 p0 by blast
qed

lemma ln10_neq_1: "ln (10::real) \<noteq> 1"
proof
  assume "ln (10::real) = 1"
  then have "exp (ln (10::real)) = exp 1" by simp
  then have "(10::real) = exp 1" by simp
  moreover have "exp (1::real) \<le> 3" by (rule exp_le)
  ultimately show False by simp
qed

lemma example_custom_run:
  "periodradius (example_ranged v L) Init None None None (Some [1, 10, 100]) (Some [1, 2, 4])
     = Inr (v, normalized2 v 9 (scale (example_ranged v L)) [[1, 1, 1], [1, 1, 1], [1, 1, 1]],
            times_span (map_option average_axis1
               (normalized2 v 9 (scale (example_ranged v L)) [[1, 1, 1], [1, 1, 1], [1, 1, 1]]))
               (Some (ln 4)),
            times_span (map_option average_axis0
               (normalized2 v 9 (scale (example_ranged v L)) [[1, 1, 1], [1, 1, 1], [1, 1, 1]]))
               (Some (ln 100)))"
  unfolding periodradius_def example_resolve example_pdf0
  by (simp add: chosen_grid_def sum_all_def Let_def meshgrid_ij_def example_ranged_fields
      example_func_def ln_span_def)

text \<open>
  Claim C2 at \<open>LogArea=True\<close>, on the example grid with \<open>pps = 1\<close> and a constant
  function. Called with \<open>xgrid = MC_xvar\<close> and \<open>ygrid = MC_yvar\<close>, \<open>periodradius\<close>
  returns the joint density of the call without a grid, but both marginal densities are
  larger by the factor \<open>ln 10\<close>: the scale factors are per unit of \<open>log10\<close>, and the
  other grid's marginals multiply by the span in \<open>np.log\<close>.
\<close>

theorem periodradius_log10_marginals_differ:
  "MC_xvar (example_ranged 1 True) = [1, 10, 100] \<and> MC_yvar (example_ranged 1 True) = [1, 2, 4]
   \<and> periodradius (example_ranged 1 True) False None None None None None
       = Inr (1, Some (replicate 3 (replicate 3 (1 / (2 * log 10 4)))),
              Some (replicate 3 (1 / 2)), Some (replicate 3 (1 / log 10 4)))
   \<and> periodradius (example_ranged 1 True) False None None None
         (Some [1, 10, 100]) (Some [1, 2, 4])
       = Inr (1, Some (replicate 3 (replicate 3 (1 / (2 * log 10 4)))),
              Some (replicate 3 (ln 10 * (1 / 2))), Some (replicate 3 (ln 10 * (1 / log 10 4))))
   \<and> ln 10 * (1 / 2) \<noteq> (1 / 2 :: real) \<and> ln 10 * (1 / log 10 4) \<noteq> (1 / log 10 4 :: real)"
proof -
  have l4: "log 10 4 \<noteq> 0" "ln (4::real) \<noteq> 0" by (simp_all add: log_def)
  have l100: "ln (100::real) = 2 * ln 10"
    using ln_realpow[of 10 2] by simp
  have q: "ln 4 / log 10 4 = ln (10::real)" by (simp add: log_def)
  have sc: "scale (example_ranged 1 True) = Some (3 / 2 * (3 / log 10 4))"
    "scale_x (example_ranged 1 True) = Some (3 / 2)"
    "scale_in_y (example_ranged 1 True) = Some (3 / log 10 4)"
    by (simp_all add: example_ranged_fields example_scales times_opt_def)
  have d: "periodradius (example_ranged 1 True) False None None None None None
       = Inr (1, Some (replicate 3 (replicate 3 (1 / (2 * log 10 4)))),
              Some (replicate 3 (1 / 2)), Some (replicate 3 (1 / log 10 4)))"
    unfolding example_default_run sc
    by (simp add: normalized2_def normalized_def eval_nat_numeral)
  have c: "periodradius (example_ranged 1 True) False None None None
         (Some [1, 10, 100]) (Some [1, 2, 4])
       = Inr (1, Some (replicate 3 (replicate 3 (1 / (2 * log 10 4)))),
              Some (replicate 3 (ln 10 * (1 / 2))), Some (replicate 3 (ln 10 * (1 / log 10 4))))"
    unfolding example_custom_run sc
    using l4 q l100
    by (simp add: normalized2_def times_span_def average_axis1_def average_axis0_def
        sum_axis0_def eval_nat_numeral upt_rec log_def field_simps)
  have n: "ln 10 * (1 / 2) \<noteq> (1 / 2 :: real)" "ln 10 * (1 / log 10 4) \<noteq> (1 / log 10 4 :: real)"
    using ln10_neq_1 l4 by simp_all
  show ?thesis using d c n by (simp add: example_ranged_fields)
qed

text \<open>The two calls of C2 return different results on the example grid.\<close>

theorem periodradius_log10_marginals_differ_witness:
  "periodradius (example_ranged 1 True) False None None None None None
     \<noteq> periodradius (example_ranged 1 True) False None None None
         (Some [1, 10, 100]) (Some [1, 2, 4])"
  using periodradius_log10_marginals_differ by (simp add: eval_nat_numeral)

section \<open>Properties of set_population\<close>

lemma map_raise_error:
  "(\<And>x e. f x = Inl e \<Longrightarrow> e = err) \<Longrightarrow> map_raise f xs = Inl e \<Longrightarrow> e = err"
  by (induction xs arbitrary: e) (auto split: sum.splits)

lemma idx_get_error: "idx_get a idx = Inl e \<Longrightarrow> e = IndexError"
  unfolding idx_get_def
  by (erule map_raise_error[rotated]) (auto split: option.splits)

lemma idx_assign_error: "idx_assign a idx vals = Inl e \<Longrightarrow> e = IndexError"
  by (auto simp: idx_assign_def split: if_splits)

lemma dP_loop_error: "dP_loop P dP kms = Inl e \<Longrightarrow> e = IndexError"
  by (induction kms arbitrary: dP)
     (auto split: sum.splits dest: idx_get_error idx_assign_error)

lemma neighbour_ratios_error: "neighbour_ratios M ids P = Inl e \<Longrightarrow> e = IndexError"
  by (auto simp: neighbour_ratios_def split: prod.splits sum.splits
      dest: idx_assign_error dP_loop_error)

lemma reorder_opt_error: "reorder_opt a order = Inl e \<Longrightarrow> e = IndexError"
  by (auto simp: reorder_opt_def split: option.splits if_splits)

text \<open>
  Claim C8, amended. For an object without a population, \<open>set_population\<close> raises the
  ValueError of its length check exactly when \<open>sma\<close> and \<open>mass\<close> differ in length; the
  lengths of \<open>starID\<close>, \<open>inc\<close> and \<open>tag\<close> do not enter.
\<close>

theorem set_population_length_check:
  assumes "pfm self = None"
  shows "(set_population M self nm sma mass inc starID tag
            = Inl (ValueError ''sma and mass have to be iterable''))
         = (length sma \<noteq> length mass)"
proof (cases "length sma = length mass")
  case False
  with assms show ?thesis by (simp add: set_population_def)
next
  case True
  have "set_population M self nm sma mass inc starID tag
          \<noteq> Inl (ValueError ''sma and mass have to be iterable'')"
    using assms True unfolding set_population_def Let_def
    by (auto split: if_splits sum.splits
        dest: reorder_opt_error neighbour_ratios_error)
  with True show ?thesis by simp
qed

text \<open>
  Three axes against two masses are refused, two against two are not.
\<close>

theorem set_population_length_check_witness:
  "pfm new_epos = None
   \<and> set_population multi_none new_epos ''model'' [1, 2, 3] [1, 2] None None None
       = Inl (ValueError ''sma and mass have to be iterable'')
   \<and> set_population multi_none new_epos ''model'' [1, 2] [1, 2] None None None
       \<noteq> Inl (ValueError ''sma and mass have to be iterable'')"
proof -
  have p: "pfm new_epos = None" by (simp add: new_epos_def init_epos_def)
  show ?thesis
    using set_population_length_check[OF p, of multi_none "''model''" "[1, 2, 3]" "[1, 2]" None None None]
      set_population_length_check[OF p, of multi_none "''model''" "[1, 2]" "[1, 2]" None None None] p
    by simp
qed

text \<open>
  Claim C8 as stated fails: with two planets, one inclination, one star identifier and
  three tags the call returns.
\<close>

theorem set_population_unchecked_counterexample:
  "length [0.1::real] \<noteq> length [1, 2::real]
   \<and> length [7::int] \<noteq> length [1, 2::real]
   \<and> \<not> isl (set_population multi_none new_epos ''model'' [1, 2] [1, 2]
               (Some [0.1]) (Some [7]) (Some [5, 5, 5]))"
  by (simp add: set_population_def new_epos_def init_epos_def Let_def)

section \<open>The two grids of periodradius under natural-log scaling\<close>

text \<open>
  With \<open>LogArea=False\<close>, without a mass-radius relation, on working axes of positive
  entries whose first and last entries differ, and for a function that returns an array of
  the shape of the grid, \<open>periodradius\<close> with \<open>xgrid = MC_xvar\<close> and \<open>ygrid = MC_yvar\<close>
  returns what it returns without a grid: the part of C2 that holds.
\<close>

lemma sum_axis1_total: "sum_list (sum_axis1 m) = sum_all m"
  by (simp add: sum_axis1_def sum_all_def)

lemma col_sums_total:
  "\<forall>row\<in>set m. length row = n \<Longrightarrow>
   sum_list (map (\<lambda>j. sum_list (map (\<lambda>row. row ! j) m)) [0..<n]) = sum_all m"
proof (induction m)
  case Nil
  then show ?case by (simp add: sum_all_def)
next
  case (Cons r m)
  have "sum_list (map (\<lambda>j. sum_list (map (\<lambda>row. row ! j) (r # m))) [0..<n])
      = sum_list (map (\<lambda>j. r ! j) [0..<n])
        + sum_list (map (\<lambda>j. sum_list (map (\<lambda>row. row ! j) m)) [0..<n])"
    by (simp add: sum_list_addf)
  moreover have "map (\<lambda>j. r ! j) [0..<n] = r"
    using Cons.prems map_nth[of r] by simp
  ultimately show ?case using Cons by (simp add: sum_all_def)
qed

lemma sum_axis0_total:
  assumes "has_shape m nx ny" and "0 < nx"
  shows "sum_list (sum_axis0 m) = sum_all m"
proof -
  from assms have "m \<noteq> []" "\<forall>row\<in>set m. length row = ny"
    by (auto simp: has_shape_def list_all_iff)
  then have "length (hd m) = ny" by (cases m) auto
  then show ?thesis
    unfolding sum_axis0_def using col_sums_total[of m ny] \<open>\<forall>row\<in>set m. length row = ny\<close>
    by simp
qed

lemma sum_axis0_scaled:
  assumes "has_shape m nx ny" and "0 < nx"
  shows "sum_axis0 (map (map (\<lambda>v. v * k)) m) = map (\<lambda>c. c * k) (sum_axis0 m)"
proof -
  from assms have ne: "m \<noteq> []" and rows: "\<forall>row\<in>set m. length row = ny"
    by (auto simp: has_shape_def list_all_iff)
  then have hd: "length (hd m) = ny" by (cases m) auto
  have hd2: "length (hd (map (map (\<lambda>v. v * k)) m)) = ny"
    using ne hd by (cases m) auto
  have "sum_list (map (\<lambda>row. row ! j) (map (map (\<lambda>v. v * k)) m))
      = sum_list (map (\<lambda>row. row ! j) m) * k" if "j < ny" for j
  proof -
    have "map (\<lambda>row. row ! j) (map (map (\<lambda>v. v * k)) m) = map (\<lambda>row. row ! j * k) m"
      using rows that by (auto simp: comp_def)
    then have "sum_list (map (\<lambda>row. row ! j) (map (map (\<lambda>v. v * k)) m))
        = sum_list (map (\<lambda>row. row ! j * k) m)" by (simp only:)
    then show ?thesis by (simp only: sum_list_mult_const)
  qed
  then show ?thesis unfolding sum_axis0_def hd hd2 by auto
qed

lemma log_scale_positive:
  assumes "a \<noteq> []" and "\<forall>x\<in>set a. 0 < x" and "hd a \<noteq> last a"
  shows "log_scale ln a = Some (real (length a) / ln (last a / hd a))"
    and "ln_span a = Some (ln (last a / hd a))" and "ln (last a / hd a) \<noteq> 0"
proof -
  have h: "0 < hd a" "0 < last a" using assms(1,2) by simp_all
  then have q: "0 < last a / hd a" "last a / hd a \<noteq> 1" using assms(3) by auto
  then show l: "ln (last a / hd a) \<noteq> 0" by simp
  show "log_scale ln a = Some (real (length a) / ln (last a / hd a))"
    using h q l by (auto simp: log_scale_def Let_def not_less[symmetric] dest: less_imp_le)
  show "ln_span a = Some (ln (last a / hd a))"
    using h q by (simp add: ln_span_def)
qed

lemma log_scale_nonzero:
  assumes "a \<noteq> []" and "\<forall>x\<in>set a. 0 < x" and "log_scale area a = Some c"
  shows "c \<noteq> 0"
proof -
  have h: "0 < hd a" "0 < last a" using assms(1,2) by simp_all
  then have "hd a \<noteq> 0" "last a \<noteq> 0" "\<not> last a / hd a < 0" by (auto simp: not_less)
  with assms(3) have "area (last a / hd a) \<noteq> 0"
    and "c = real (length a) / area (last a / hd a)"
    by (auto simp: log_scale_def Let_def split: if_splits)
  then show ?thesis using assms(1) by simp
qed

lemma periodradius_same_grid_ln:
  assumes X: "X_in self = fst (meshgrid_ij (MC_xvar self) (MC_yvar self))"
    and Y: "Y_in self = snd (meshgrid_ij (MC_xvar self) (MC_yvar self))"
    and sx: "scale_x self = log_scale ln (MC_xvar self)"
    and sy: "scale_in_y self = log_scale ln (MC_yvar self)"
    and sc: "scale self = times_opt (scale_x self) (scale_in_y self)"
    and nex: "MC_xvar self \<noteq> []" and ney: "MC_yvar self \<noteq> []"
    and posx: "\<forall>x\<in>set (MC_xvar self). 0 < x" and posy: "\<forall>y\<in>set (MC_yvar self). 0 < y"
    and dx: "hd (MC_xvar self) \<noteq> last (MC_xvar self)"
    and dy: "hd (MC_yvar self) \<noteq> last (MC_yvar self)"
    and res: "resolve_pars self Init fpara = Inr (pps, pars)"
    and shape: "has_shape (func self (X_in self) (Y_in self) pars)
                  (length (MC_xvar self)) (length (MC_yvar self))"
  shows "periodradius self Init fpara None None (Some (MC_xvar self)) (Some (MC_yvar self))
       = periodradius self Init fpara None None None None"
proof -
  let ?xs = "MC_xvar self" and ?ys = "MC_yvar self"
  let ?m = "func self (X_in self) (Y_in self) pars"
  define nx ny cx cy S where "nx = real (length ?xs)" and "ny = real (length ?ys)"
    and "cx = ln (last ?xs / hd ?xs)" and "cy = ln (last ?ys / hd ?ys)" and "S = sum_all ?m"
  have n0: "nx \<noteq> 0" "ny \<noteq> 0" using nex ney by (simp_all add: nx_def ny_def)
  have c0: "cx \<noteq> 0" "cy \<noteq> 0"
    using log_scale_positive(3)[OF nex posx dx] log_scale_positive(3)[OF ney posy dy]
    by (simp_all add: cx_def cy_def)
  have scx: "scale_x self = Some (nx / cx)" and scy: "scale_in_y self = Some (ny / cy)"
    using log_scale_positive(1)[OF nex posx dx] log_scale_positive(1)[OF ney posy dy]
    by (simp_all add: sx sy nx_def ny_def cx_def cy_def)
  have scl: "scale self = Some (nx / cx * (ny / cy))"
    by (simp add: sc scx scy times_opt_def)
  have lx: "ln_span ?xs = Some cx" and ly: "ln_span ?ys = Some cy"
    using log_scale_positive(2)[OF nex posx dx] log_scale_positive(2)[OF ney posy dy]
    by (simp_all add: cx_def cy_def)
  have rows: "\<forall>row\<in>set ?m. length row = length ?ys" and len: "length ?m = length ?xs"
    and mne: "?m \<noteq> []"
    using shape nex by (auto simp: has_shape_def list_all_iff)
  have t1: "sum_list (sum_axis1 ?m) = S" by (simp add: S_def sum_axis1_total)
  have t0: "sum_list (sum_axis0 ?m) = S"
    using sum_axis0_total[OF shape] nex by (simp add: S_def)
  have custom: "periodradius self Init fpara None None (Some ?xs) (Some ?ys)
      = Inr (pps, normalized2 pps S (scale self) ?m,
             times_span (map_option average_axis1 (normalized2 pps S (scale self) ?m)) (Some cy),
             times_span (map_option average_axis0 (normalized2 pps S (scale self) ?m)) (Some cx))"
    using nex ney
    by (simp add: periodradius_def res chosen_grid_def Let_def X[symmetric] Y[symmetric] lx ly
        S_def)
  have default: "periodradius self Init fpara None None None None
      = Inr (pps, normalized2 pps S (scale self) ?m,
             normalized pps S (scale_x self) (sum_axis1 ?m),
             normalized pps S (scale_in_y self) (sum_axis0 ?m))"
    by (simp add: periodradius_def res chosen_grid_def Let_def t1 t0) (simp add: S_def)
  show ?thesis
  proof (cases "S = 0")
    case True
    then show ?thesis
      by (simp add: custom default normalized2_def normalized_def times_span_def scl scx scy)
  next
    case False
    define K where "K = pps / S * (nx / cx * (ny / cy))"
    have g: "(\<lambda>v. pps * v / S * (nx / cx * (ny / cy))) = (\<lambda>v. v * K)"
      by (auto simp: K_def)
    have n2: "normalized2 pps S (scale self) ?m = Some (map (map (\<lambda>v. v * K)) ?m)"
      using False by (simp add: normalized2_def scl K_def)
    have ax1: "map (\<lambda>y. y * cy) (average_axis1 (map (map (\<lambda>v. v * K)) ?m))
        = map (\<lambda>v. pps * v / S * (nx / cx)) (sum_axis1 ?m)"
    proof -
      have "sum_list (map (\<lambda>v. v * K) row) / real (length row) * cy
          = pps * sum_list row / S * (nx / cx)" if "row \<in> set ?m" for row
      proof -
        have l: "real (length row) = ny" using rows that by (simp add: ny_def)
        have "sum_list (map (\<lambda>v. v * K) row) = sum_list row * K"
          using sum_list_mult_const[of "\<lambda>v. v" K row] by simp
        moreover have "sum_list row * K / ny * cy = pps * sum_list row / S * (nx / cx)"
          using n0 c0 False by (simp add: K_def field_simps)
        ultimately show ?thesis by (simp only: l)
      qed
      then show ?thesis by (simp add: average_axis1_def sum_axis1_def comp_def)
    qed
    have ax0: "map (\<lambda>y. y * cx) (average_axis0 (map (map (\<lambda>v. v * K)) ?m))
        = map (\<lambda>v. pps * v / S * (ny / cy)) (sum_axis0 ?m)"
    proof -
      have "sum_axis0 (map (map (\<lambda>v. v * K)) ?m) = map (\<lambda>c. c * K) (sum_axis0 ?m)"
        using sum_axis0_scaled[OF shape] nex by simp
      moreover have "c * K / nx * cx = pps * c / S * (ny / cy)" for c
        using n0 c0 False by (simp add: K_def field_simps)
      ultimately show ?thesis
        by (simp add: average_axis0_def len nx_def comp_def)
    qed
    show ?thesis
      using False
      by (simp add: custom default n2 times_span_def normalized_def scx scy ax1 ax0)
  qed
qed

lemma prep_grid_scales:
  assumes "prep_grid self LogArea = Inr s"
  shows "scale_x s = log_scale (if LogArea then log 10 else ln) (MC_xvar s)"
    "scale_y s = log_scale (if LogArea then log 10 else ln) (MC_yvar s)"
    "scale s = times_opt (scale_x s) (scale_y s)"
    "X_mesh s = fst (meshgrid_ij (MC_xvar s) (MC_yvar s))"
    "Y_mesh s = snd (meshgrid_ij (MC_xvar s) (MC_yvar s))"
    "MassRadius s = MassRadius self" "PDF s = PDF self"
  using assms unfolding prep_grid_def
  by (auto simp: Let_def split: sum.splits prod.splits if_splits)

lemma prep_pdf_grid_default:
  assumes "prep_pdf_grid self LogArea = Inr s" and "\<not> MassRadius self" and "PDF self = Some True"
  shows "X_in s = X_mesh self" "Y_in s = Y_mesh self" "scale_in_y s = scale_y self"
  using assms unfolding prep_pdf_grid_def by auto

lemma plot_ticks_pdf: "pdf_fields (plot_ticks self) = pdf_fields self"
  by (simp add: plot_ticks_def pdf_fields_def)

lemma occurrence_zoom_pdf:
  "occurrence_zoom self = Inr s \<Longrightarrow> pdf_fields s = pdf_fields self"
  unfolding occurrence_zoom_def pdf_fields_def
  by (auto simp: Let_def split: if_splits)

lemma set_ranges_default_grid:
  assumes run: "set_ranges self xt yt xz yz LogArea Occ = Inr s"
    and nomr: "\<not> MassRadius self" and pdf: "PDF self = Some True"
  shows "X_in s = fst (meshgrid_ij (MC_xvar s) (MC_yvar s))"
    "Y_in s = snd (meshgrid_ij (MC_xvar s) (MC_yvar s))"
    "scale_x s = log_scale (if LogArea then log 10 else ln) (MC_xvar s)"
    "scale_in_y s = log_scale (if LogArea then log 10 else ln) (MC_yvar s)"
    "scale s = times_opt (scale_x s) (scale_in_y s)"
    "MC_xvar s \<noteq> []" "MC_yvar s \<noteq> []"
proof -
  let ?b = "range_bounds self xt yt xz yz"
  from run obtain s1 s2 where st:
    "prep_grid ?b LogArea = Inr s1" "prep_pdf_grid s1 LogArea = Inr s2"
    "if Occ then occurrence_zoom (plot_ticks s2) = Inr s else s = plot_ticks s2"
    by (rule set_ranges_stages)
  have b: "MassRadius ?b = MassRadius self" "PDF ?b = PDF self"
    by (simp_all add: range_bounds_def Let_def)
  note g = prep_grid_scales[OF st(1)]
  have s1: "\<not> MassRadius s1" "PDF s1 = Some True" using g(6,7) b nomr pdf by simp_all
  note p = prep_pdf_grid_default[OF st(2) s1]
  have g2: "grid_fields s2 = grid_fields s1" using st(2) by (rule prep_pdf_grid_grid)
  have fs: "grid_fields s = grid_fields s2 \<and> pdf_fields s = pdf_fields s2"
    using st(3) plot_ticks_grid[of s2] plot_ticks_pdf[of s2]
    by (cases Occ) (auto dest: occurrence_zoom_grid occurrence_zoom_pdf)
  from st(1) obtain ixmin ixmax iymin iymax where ne: "MC_xvar s1 \<noteq> []" "MC_yvar s1 \<noteq> []"
    by (rule prep_grid_slices)
  have eq: "MC_xvar s = MC_xvar s1" "MC_yvar s = MC_yvar s1" "scale_x s = scale_x s1"
    "scale s = scale s1" "X_in s = X_mesh s1" "Y_in s = Y_mesh s1" "scale_in_y s = scale_y s1"
    using fs g2 p by (simp_all add: grid_fields_def pdf_fields_def)
  show "X_in s = fst (meshgrid_ij (MC_xvar s) (MC_yvar s))"
    "Y_in s = snd (meshgrid_ij (MC_xvar s) (MC_yvar s))"
    "scale_x s = log_scale (if LogArea then log 10 else ln) (MC_xvar s)"
    "scale_in_y s = log_scale (if LogArea then log 10 else ln) (MC_yvar s)"
    "scale s = times_opt (scale_x s) (scale_in_y s)"
    "MC_xvar s \<noteq> []" "MC_yvar s \<noteq> []"
    using g(1-5) ne by (simp_all add: eq)
qed

lemma periodradius_custom_grid_agrees:
  assumes run: "set_ranges self xt yt xz yz False Occ = Inr s"
    and nomr: "\<not> MassRadius self" and pdf: "PDF self = Some True"
    and posx: "\<forall>x\<in>set (MC_xvar s). 0 < x" and posy: "\<forall>y\<in>set (MC_yvar s). 0 < y"
    and dx: "hd (MC_xvar s) \<noteq> last (MC_xvar s)" and dy: "hd (MC_yvar s) \<noteq> last (MC_yvar s)"
    and res: "resolve_pars s Init fpara = Inr (pps, pars)"
    and shape: "has_shape (func s (X_in s) (Y_in s) pars)
                  (length (MC_xvar s)) (length (MC_yvar s))"
  shows "periodradius s Init fpara None None (Some (MC_xvar s)) (Some (MC_yvar s))
       = periodradius s Init fpara None None None None"
proof -
  note g = set_ranges_default_grid[OF run nomr pdf]
  show ?thesis
    using g(1,2) g(3)[simplified] g(4)[simplified] g(5) g(6,7) posx posy dx dy res shape
    by (rule periodradius_same_grid_ln)
qed

end
